theory Spec2Isabelle
  imports Main "HOL-Library.Word" "HOL-Library.Multiset"
begin

text \<open>
  The booking backend of a sports-field rental: availability, reservation, cancellation
  and prices over two PostgreSQL tables, behind an Express server with an in-memory
  token set for the admin routes. The model follows the variant of the server that has
  the admin gate and the prices; the handlers become functions from the state of the
  store and the token set to an answer and the next state.
\<close>

section \<open>JavaScript values and string operations\<close>

text \<open>
  The value of a field of a parsed JSON body or of a query string. \<open>JUndefined\<close> is a
  key that is not there. A number is an integer from \<open>-2\<^sup>5\<^sup>3\<close> to \<open>2\<^sup>5\<^sup>3 - 1\<close>, the
  signed value of a 54-bit word: these are the integers that a JavaScript number holds
  exactly and prints in plain decimal. Other numbers, arrays and objects are not
  modelled. A string is a list of characters.
\<close>

datatype jsval = JUndefined | JNull | JBool bool | JNum "54 word" | JStr string

text \<open>The operand of \<^verbatim>\<open>!x\<close>: what JavaScript takes for true.\<close>

fun truthy :: "jsval \<Rightarrow> bool" where
  "truthy JUndefined = False"
| "truthy JNull = False"
| "truthy (JBool b) = b"
| "truthy (JNum n) = (n \<noteq> 0)"
| "truthy (JStr s) = (s \<noteq> [])"

text \<open>\<^verbatim>\<open>v || d\<close> on a value that is a string or undefined (a header, an environment variable).\<close>

definition or_default :: "string option \<Rightarrow> string \<Rightarrow> string" where
  "or_default v d = (case v of None \<Rightarrow> d | Some s \<Rightarrow> if s = [] then d else s)"

text \<open>
  \<^verbatim>\<open>s.replace(pat, rep)\<close> with a string pattern: the first occurrence of \<open>pat\<close>, wherever
  it starts, is replaced; a string without one is returned as it is.
\<close>

fun replace :: "string \<Rightarrow> string \<Rightarrow> string \<Rightarrow> string" where
  "replace [] pat rep = (if pat = [] then rep else [])"
| "replace (c # cs) pat rep =
     (if take (length pat) (c # cs) = pat then rep @ drop (length pat) (c # cs)
      else c # replace cs pat rep)"

text \<open>\<^verbatim>\<open>s.trim()\<close>: white space and line terminators go from both ends.\<close>

definition js_space :: "char \<Rightarrow> bool" where
  "js_space c = (c \<in> set [CHR 0x09, CHR 0x0A, CHR 0x0B, CHR 0x0C, CHR 0x0D, CHR 0x20, CHR 0xA0])"

definition trim :: "string \<Rightarrow> string" where
  "trim s = rev (dropWhile js_space (rev (dropWhile js_space s)))"

text \<open>
  \<^verbatim>\<open>n.toString()\<close> of a number: the decimal digits of its value, a minus sign before
  a negative one.
\<close>

definition digit_char :: "nat \<Rightarrow> char" where
  "digit_char d = ''0123456789'' ! (d mod 10)"

fun digits :: "nat \<Rightarrow> string" where
  "digits n = (if n < 10 then [digit_char n] else digits (n div 10) @ [digit_char (n mod 10)])"

declare digits.simps [simp del]

definition decimal :: "int \<Rightarrow> string" where
  "decimal n = (if n < 0 then CHR ''-'' # digits (nat (- n)) else digits (nat n))"

definition toString :: "54 word \<Rightarrow> string" where
  "toString n = decimal (sint n)"

text \<open>\<^verbatim>\<open>crypto.randomBytes(n).toString('hex')\<close>; the bytes come from the environment.\<close>

definition randomBytes :: "nat \<Rightarrow> (nat \<Rightarrow> 8 word) \<Rightarrow> 8 word list" where
  "randomBytes n src = map src [0..<n]"

definition hex_digit :: "nat \<Rightarrow> char" where
  "hex_digit d = ''0123456789abcdef'' ! (d mod 16)"

definition toString_hex :: "8 word list \<Rightarrow> string" where
  "toString_hex bs = concat (map (\<lambda>b. [hex_digit (unat b div 16), hex_digit (unat b mod 16)]) bs)"

section \<open>The store\<close>

text \<open>
  The two tables that \<^verbatim>\<open>initDB\<close> creates, as lists of rows in the order in which a
  \<^verbatim>\<open>SELECT\<close> without \<^verbatim>\<open>ORDER BY\<close> retrieves them. \<open>estado\<close> and \<open>fecha_creacion\<close>
  are never given in a statement of the program: a row holds the column's default, or
  \<open>cancelada\<close> once cancelled. \<open>reservas_id_seq\<close> is the last value of the sequence
  behind \<^verbatim>\<open>id SERIAL\<close>. An \<^verbatim>\<open>UPDATE\<close> writes the rows it changes anew, and where they
  then stand among the others is the store's choice.
\<close>

record reserva =
  r_id :: int
  r_nombre :: string
  r_apellido :: string
  r_whatsapp :: string
  r_deporte :: string
  r_cancha :: string
  r_fecha :: string
  r_horario :: string
  r_precio :: int
  r_estado :: string
  r_fecha_creacion :: nat

record precio_fila =
  p_id :: int
  p_cancha :: string
  p_precio :: int
  p_actualizado :: nat

record state =
  reservas :: "reserva list"
  reservas_id_seq :: int
  precios :: "precio_fila list"
  tokens :: "string set"

text \<open>The eight fields that \<^verbatim>\<open>POST /reservar\<close> takes out of \<^verbatim>\<open>req.body\<close>.\<close>

record reservar_body =
  nombre :: jsval
  apellido :: jsval
  whatsapp :: jsval
  deporte :: jsval
  cancha :: jsval
  fecha :: jsval
  horario :: jsval
  precio :: jsval

text \<open>
  What the process reads from outside: the clock behind \<^verbatim>\<open>NOW()\<close>, the environment
  variables, the random bytes, whether a \<^verbatim>\<open>fetch\<close> of the webhook resolves
  (\<open>False\<close>: it throws or its promise is rejected), and the order in which the store
  leaves the rows of a table after an \<^verbatim>\<open>UPDATE\<close> has rewritten some of them.
\<close>

record entorno =
  ahora :: nat
  N8N_WEBHOOK_URL :: "string option"
  fetch :: "string \<Rightarrow> int \<times> reservar_body \<Rightarrow> bool"
  ADMIN_EMAIL :: "string option"
  ADMIN_PASS :: "string option"
  random :: "nat \<Rightarrow> 8 word"
  orden_reservas :: "reserva list \<Rightarrow> reserva list"
  orden_precios :: "precio_fila list \<Rightarrow> precio_fila list"

datatype pg_error =
  character_not_in_repertoire
  | invalid_text_representation
  | numeric_value_out_of_range
  | string_data_right_truncation
  | not_null_violation string
  | unique_violation
  | sequence_generator_limit_exceeded

text \<open>
  The driver sends every parameter as text: \<^verbatim>\<open>null\<close> and \<^verbatim>\<open>undefined\<close> as NULL,
  anything else through \<^verbatim>\<open>toString()\<close>.
\<close>

fun prepareValue :: "jsval \<Rightarrow> string option" where
  "prepareValue JUndefined = None"
| "prepareValue JNull = None"
| "prepareValue (JBool b) = Some (if b then ''true'' else ''false'')"
| "prepareValue (JNum n) = Some (toString n)"
| "prepareValue (JStr s) = Some s"

text \<open>
  A text parameter that holds the character U+0000 is refused by the store, whatever
  the statement.
\<close>

definition textin :: "string option \<Rightarrow> pg_error + string option" where
  "textin v =
     (case v of
        None \<Rightarrow> Inr None
      | Some s \<Rightarrow> if CHR 0x00 \<in> set s then Inl character_not_in_repertoire else Inr (Some s))"

text \<open>
  A text parameter for an \<^verbatim>\<open>INTEGER\<close> column or for \<^verbatim>\<open>id\<close>: optional white space, an
  optional sign, decimal digits, optional white space; the value within 32 bits.
\<close>

definition pg_space :: "char \<Rightarrow> bool" where
  "pg_space c = (c \<in> set [CHR 0x20, CHR 0x09, CHR 0x0A, CHR 0x0B, CHR 0x0C, CHR 0x0D])"

definition is_digit :: "char \<Rightarrow> bool" where
  "is_digit c = (c \<in> set ''0123456789'')"

definition digit_value :: "char \<Rightarrow> nat" where
  "digit_value c = of_char c - 48"

definition digits_value :: "string \<Rightarrow> nat" where
  "digits_value ds = foldl (\<lambda>acc c. 10 * acc + digit_value c) 0 ds"

definition int4in :: "string \<Rightarrow> pg_error + int" where
  "int4in s =
     (let t = dropWhile pg_space s;
          neg = (take 1 t = ''-'');
          r = (if take 1 t = ''-'' \<or> take 1 t = ''+'' then drop 1 t else t);
          ds = takeWhile is_digit r;
          v = (if neg then - int (digits_value ds) else int (digits_value ds))
      in if ds = [] \<or> \<not> list_all pg_space (dropWhile is_digit r) then Inl invalid_text_representation
         else if - 2147483648 \<le> v \<and> v \<le> 2147483647 then Inr v
         else Inl numeric_value_out_of_range)"

definition bind_int4 :: "string option \<Rightarrow> pg_error + int option" where
  "bind_int4 v =
     (case v of
        None \<Rightarrow> Inr None
      | Some s \<Rightarrow> (case int4in s of Inl e \<Rightarrow> Inl e | Inr i \<Rightarrow> Inr (Some i)))"

text \<open>
  Assignment to a \<^verbatim>\<open>VARCHAR(n)\<close> column: a longer string is an error, unless what
  exceeds \<open>n\<close> characters is spaces only, which are cut off.
\<close>

definition varchar :: "nat \<Rightarrow> string option \<Rightarrow> pg_error + string option" where
  "varchar n v =
     (case v of
        None \<Rightarrow> Inr None
      | Some s \<Rightarrow>
          if length s \<le> n then Inr (Some s)
          else if list_all (\<lambda>c. c = CHR '' '') (drop n s) then Inr (Some (take n s))
          else Inl string_data_right_truncation)"

text \<open>\<^verbatim>\<open>NOT NULL\<close> on the named column.\<close>

definition not_null :: "string \<Rightarrow> 'a option \<Rightarrow> pg_error + 'a" where
  "not_null col v = (case v of None \<Rightarrow> Inl (not_null_violation col) | Some x \<Rightarrow> Inr x)"

definition andThen :: "'e + 'a \<Rightarrow> ('a \<Rightarrow> 'e + 'b) \<Rightarrow> 'e + 'b" where
  "andThen r f = (case r of Inl e \<Rightarrow> Inl e | Inr x \<Rightarrow> f x)"

definition nextval :: "int \<Rightarrow> pg_error + int" where
  "nextval v = (if v < 2147483647 then Inr (v + 1) else Inl sequence_generator_limit_exceeded)"

subsection \<open>The statements the handlers issue\<close>

text \<open>
  \<^verbatim>\<open>SELECT horario FROM reservas WHERE cancha = $1 AND fecha = $2 AND estado != 'cancelada'\<close>
  and the \<^verbatim>\<open>SELECT id\<close> that also compares \<open>horario\<close>. The parameters are bound
  first; a NULL parameter equals no row.
\<close>

definition SELECT_horario :: "state \<Rightarrow> jsval \<Rightarrow> jsval \<Rightarrow> pg_error + string list" where
  "SELECT_horario st c f =
     andThen (textin (prepareValue c)) (\<lambda>c.
     andThen (textin (prepareValue f)) (\<lambda>f.
     Inr (map r_horario
            (filter (\<lambda>r. Some (r_cancha r) = c \<and> Some (r_fecha r) = f
                         \<and> r_estado r \<noteq> ''cancelada'')
               (reservas st)))))"

definition SELECT_id :: "state \<Rightarrow> jsval \<Rightarrow> jsval \<Rightarrow> jsval \<Rightarrow> pg_error + int list" where
  "SELECT_id st c f h =
     andThen (textin (prepareValue c)) (\<lambda>c.
     andThen (textin (prepareValue f)) (\<lambda>f.
     andThen (textin (prepareValue h)) (\<lambda>h.
     Inr (map r_id
            (filter (\<lambda>r. Some (r_cancha r) = c \<and> Some (r_fecha r) = f
                         \<and> Some (r_horario r) = h \<and> r_estado r \<noteq> ''cancelada'')
               (reservas st))))))"

text \<open>
  \<^verbatim>\<open>INSERT INTO reservas (nombre, ..., precio) VALUES ($1, ..., $8) RETURNING id\<close>.
  The parameters are bound and brought to the columns' types first (\<open>bind_valores\<close>);
  then the sequence gives the id (a value it has given is not taken back when the row
  is refused), then the \<^verbatim>\<open>NOT NULL\<close> columns are checked in the table's order and the
  row gets the defaults of \<open>estado\<close> and \<open>fecha_creacion\<close> (\<open>fila_nueva\<close>); a row whose id
  another row has already is refused by the \<^verbatim>\<open>PRIMARY KEY\<close>, and otherwise the row is
  appended.
\<close>

type_synonym valores =
  "string option \<times> string option \<times> string option \<times> string option \<times> string option
   \<times> string option \<times> string option \<times> int option"

definition bind_valores :: "reservar_body \<Rightarrow> pg_error + valores" where
  "bind_valores b =
     andThen (textin (prepareValue (nombre b))) (\<lambda>n.
     andThen (textin (prepareValue (apellido b))) (\<lambda>a.
     andThen (textin (prepareValue (whatsapp b))) (\<lambda>w.
     andThen (textin (prepareValue (deporte b))) (\<lambda>d.
     andThen (textin (prepareValue (cancha b))) (\<lambda>c.
     andThen (textin (prepareValue (fecha b))) (\<lambda>f.
     andThen (textin (prepareValue (horario b))) (\<lambda>h.
     andThen (bind_int4 (prepareValue (precio b))) (\<lambda>p.
     andThen (varchar 100 n) (\<lambda>n.
     andThen (varchar 100 a) (\<lambda>a.
     andThen (varchar 30 w) (\<lambda>w.
     andThen (varchar 50 d) (\<lambda>d.
     andThen (varchar 100 c) (\<lambda>c.
     andThen (varchar 100 f) (\<lambda>f.
     andThen (varchar 10 h) (\<lambda>h.
     Inr (n, a, w, d, c, f, h, p))))))))))))))))"

fun fila_nueva :: "entorno \<Rightarrow> int \<Rightarrow> valores \<Rightarrow> pg_error + reserva" where
  "fila_nueva env i (n, a, w, d, c, f, h, p) =
     andThen (not_null ''nombre'' n) (\<lambda>n.
     andThen (not_null ''apellido'' a) (\<lambda>a.
     andThen (not_null ''whatsapp'' w) (\<lambda>w.
     andThen (not_null ''deporte'' d) (\<lambda>d.
     andThen (not_null ''cancha'' c) (\<lambda>c.
     andThen (not_null ''fecha'' f) (\<lambda>f.
     andThen (not_null ''horario'' h) (\<lambda>h.
     andThen (not_null ''precio'' p) (\<lambda>p.
     Inr \<lparr>r_id = i, r_nombre = n, r_apellido = a, r_whatsapp = w, r_deporte = d,
          r_cancha = c, r_fecha = f, r_horario = h, r_precio = p,
          r_estado = ''confirmada'', r_fecha_creacion = ahora env\<rparr>))))))))"

definition INSERT_reservas :: "entorno \<Rightarrow> state \<Rightarrow> reservar_body \<Rightarrow> (pg_error + int) \<times> state" where
  "INSERT_reservas env st b =
     (case bind_valores b of
        Inl e \<Rightarrow> (Inl e, st)
      | Inr vs \<Rightarrow>
          (case nextval (reservas_id_seq st) of
             Inl e \<Rightarrow> (Inl e, st)
           | Inr i \<Rightarrow>
               (case fila_nueva env i vs of
                  Inl e \<Rightarrow> (Inl e, st\<lparr>reservas_id_seq := i\<rparr>)
                | Inr row \<Rightarrow>
                    if list_ex (\<lambda>r. r_id r = i) (reservas st)
                    then (Inl unique_violation, st\<lparr>reservas_id_seq := i\<rparr>)
                    else (Inr i, st\<lparr>reservas_id_seq := i, reservas := reservas st @ [row]\<rparr>))))"

text \<open>
  The rows of a table after an \<^verbatim>\<open>UPDATE\<close> that has rewritten some: the same rows, in
  the order the store names; an order that is not a rearrangement of them names nothing.
\<close>

definition colocar :: "('a list \<Rightarrow> 'a list) \<Rightarrow> 'a list \<Rightarrow> 'a list" where
  "colocar orden xs = (if mset (orden xs) = mset xs then orden xs else xs)"

text \<open>
  \<^verbatim>\<open>UPDATE precios SET precio = $1, actualizado = NOW() WHERE cancha = $2\<close>. Both
  parameters are bound before any row is looked at; \<^verbatim>\<open>NOT NULL\<close> is checked on the rows
  the statement changes, a statement that fails changes none, and one that finds no row
  leaves the table as it is.
\<close>

definition UPDATE_precios :: "entorno \<Rightarrow> state \<Rightarrow> jsval \<Rightarrow> jsval \<Rightarrow> (pg_error + unit) \<times> state" where
  "UPDATE_precios env st p c =
     (case andThen (bind_int4 (prepareValue p)) (\<lambda>v.
           andThen (textin (prepareValue c)) (\<lambda>c. Inr (v, c))) of
        Inl e \<Rightarrow> (Inl e, st)
      | Inr (v, c) \<Rightarrow>
          if \<not> list_ex (\<lambda>r. Some (p_cancha r) = c) (precios st) then (Inr (), st)
          else (case not_null ''precio'' v of
                  Inl e \<Rightarrow> (Inl e, st)
                | Inr x \<Rightarrow>
                    (Inr (), st\<lparr>precios :=
                       colocar (orden_precios env)
                         (map (\<lambda>r. if Some (p_cancha r) = c
                                   then r\<lparr>p_precio := x, p_actualizado := ahora env\<rparr> else r)
                            (precios st))\<rparr>)))"

text \<open>
  \<^verbatim>\<open>UPDATE reservas SET estado = 'cancelada' WHERE id = $1\<close>; \<open>$1\<close> is the text of the
  path, read as an integer (a text that holds U+0000 is not one). A statement that
  finds no row leaves the table as it is.
\<close>

definition UPDATE_reservas :: "entorno \<Rightarrow> state \<Rightarrow> string \<Rightarrow> (pg_error + unit) \<times> state" where
  "UPDATE_reservas env st i =
     (case int4in i of
        Inl e \<Rightarrow> (Inl e, st)
      | Inr n \<Rightarrow>
          if \<not> list_ex (\<lambda>r. r_id r = n) (reservas st) then (Inr (), st)
          else (Inr (), st\<lparr>reservas :=
                  colocar (orden_reservas env)
                    (map (\<lambda>r. if r_id r = n then r\<lparr>r_estado := ''cancelada''\<rparr> else r)
                       (reservas st))\<rparr>))"

text \<open>
  \<^verbatim>\<open>SELECT * FROM reservas ORDER BY fecha_creacion DESC LIMIT 500\<close>; rows of one
  timestamp come in an order the store chooses.
\<close>

definition SELECT_reservas :: "state \<Rightarrow> reserva list" where
  "SELECT_reservas st = take 500 (rev (sort_key r_fecha_creacion (reservas st)))"

section \<open>The admin gate\<close>

datatype error = BadRequest | Unauthorized | Conflict | InternalError

definition status :: "error \<Rightarrow> nat" where
  "status e = (case e of BadRequest \<Rightarrow> 400 | Unauthorized \<Rightarrow> 401 | Conflict \<Rightarrow> 409 | InternalError \<Rightarrow> 500)"

definition generarToken :: "entorno \<Rightarrow> string" where
  "generarToken env = toString_hex (randomBytes 32 (random env))"

text \<open>\<open>authorization\<close> is \<^verbatim>\<open>req.headers['authorization']\<close>: a string, or \<open>None\<close> when not sent.\<close>

definition validarToken :: "state \<Rightarrow> string option \<Rightarrow> bool" where
  "validarToken st authorization =
     (let auth = or_default authorization '''';
          token = trim (replace auth ''Bearer '' '''')
      in token \<in> tokens st)"

text \<open>The middleware: \<open>next\<close> is the handler it guards.\<close>

definition requireAdmin ::
  "state \<Rightarrow> string option \<Rightarrow> (state \<Rightarrow> (error + 'a) \<times> state) \<Rightarrow> (error + 'a) \<times> state" where
  "requireAdmin st authorization next =
     (if \<not> validarToken st authorization then (Inl Unauthorized, st) else next st)"

text \<open>
  \<^verbatim>\<open>POST /admin/login\<close> and \<^verbatim>\<open>POST /admin/logout\<close>. The timer that login sets deletes
  the token eight hours later: \<open>expirar\<close>.
\<close>

definition post_admin_login :: "entorno \<Rightarrow> state \<Rightarrow> jsval \<Rightarrow> jsval \<Rightarrow> (error + string) \<times> state" where
  "post_admin_login env st email password =
     (let adminEmail = or_default (ADMIN_EMAIL env) ''admin@picodeportes.com'';
          adminPass = or_default (ADMIN_PASS env) ''PicoAdmin2025''
      in if email = JStr adminEmail \<and> password = JStr adminPass
         then (let token = generarToken env
               in (Inr token, st\<lparr>tokens := insert token (tokens st)\<rparr>))
         else (Inl Unauthorized, st))"

definition expirar :: "state \<Rightarrow> string \<Rightarrow> state" where
  "expirar st token = st\<lparr>tokens := tokens st - {token}\<rparr>"

definition post_admin_logout :: "state \<Rightarrow> string option \<Rightarrow> (error + unit) \<times> state" where
  "post_admin_logout st authorization =
     (let auth = or_default authorization '''';
          token = trim (replace auth ''Bearer '' '''')
      in (Inr (), st\<lparr>tokens := tokens st - {token}\<rparr>))"

section \<open>The handlers\<close>

text \<open>\<^verbatim>\<open>POST /admin/precios\<close>.\<close>

definition post_admin_precios ::
  "entorno \<Rightarrow> state \<Rightarrow> string option \<Rightarrow> jsval \<Rightarrow> jsval \<Rightarrow> (error + unit) \<times> state" where
  "post_admin_precios env st authorization c p =
     requireAdmin st authorization (\<lambda>st.
       if \<not> truthy c \<or> p = JUndefined then (Inl BadRequest, st)
       else (case UPDATE_precios env st p c of
               (Inl e, st') \<Rightarrow> (Inl InternalError, st')
             | (Inr u, st') \<Rightarrow> (Inr (), st')))"

text \<open>\<^verbatim>\<open>GET /disponibilidad\<close>.\<close>

definition get_disponibilidad :: "state \<Rightarrow> jsval \<Rightarrow> jsval \<Rightarrow> (error + string list) \<times> state" where
  "get_disponibilidad st c f =
     (if \<not> truthy c \<or> \<not> truthy f then (Inl BadRequest, st)
      else (case SELECT_horario st c f of
              Inl e \<Rightarrow> (Inl InternalError, st)
            | Inr rows \<Rightarrow> (Inr rows, st)))"

text \<open>
  \<^verbatim>\<open>POST /reservar\<close>. The third component lists the calls of \<^verbatim>\<open>fetch\<close> the handler
  made, each with whether it resolved; a call that does not resolve is caught and
  logged, and the handler goes on to the same response.
\<close>

definition post_reservar ::
  "entorno \<Rightarrow> state \<Rightarrow> reservar_body \<Rightarrow>
   (error + int) \<times> state \<times> ((string \<times> int \<times> reservar_body) \<times> bool) list" where
  "post_reservar env st b =
     (if \<not> truthy (nombre b) \<or> \<not> truthy (apellido b) \<or> \<not> truthy (whatsapp b)
         \<or> \<not> truthy (cancha b) \<or> \<not> truthy (fecha b) \<or> \<not> truthy (horario b)
      then (Inl BadRequest, st, [])
      else (case SELECT_id st (cancha b) (fecha b) (horario b) of
              Inl e \<Rightarrow> (Inl InternalError, st, [])
            | Inr check \<Rightarrow>
                if length check > 0 then (Inl Conflict, st, [])
                else (case INSERT_reservas env st b of
                        (Inl e, st') \<Rightarrow> (Inl InternalError, st', [])
                      | (Inr reservaId, st') \<Rightarrow>
                          (case N8N_WEBHOOK_URL env of
                             None \<Rightarrow> (Inr reservaId, st', [])
                           | Some url \<Rightarrow>
                               if url = [] then (Inr reservaId, st', [])
                               else if fetch env url (reservaId, b)
                               then (Inr reservaId, st', [((url, reservaId, b), True)])
                               else (Inr reservaId, st', [((url, reservaId, b), False)])))))"

text \<open>\<^verbatim>\<open>POST /cancelar/:id\<close> and \<^verbatim>\<open>GET /reservas\<close>.\<close>

definition post_cancelar ::
  "entorno \<Rightarrow> state \<Rightarrow> string option \<Rightarrow> string \<Rightarrow> (error + unit) \<times> state" where
  "post_cancelar env st authorization i =
     requireAdmin st authorization (\<lambda>st.
       case UPDATE_reservas env st i of
         (Inl e, st') \<Rightarrow> (Inl InternalError, st')
       | (Inr u, st') \<Rightarrow> (Inr (), st'))"

definition get_reservas :: "state \<Rightarrow> string option \<Rightarrow> (error + reserva list) \<times> state" where
  "get_reservas st authorization =
     requireAdmin st authorization (\<lambda>st. (Inr (SELECT_reservas st), st))"

section \<open>The states the process can be in\<close>

text \<open>
  The process starts with an empty token set over whatever the database holds; every
  request and every expiry timer takes it from one state to the next.
\<close>

inductive reachable :: "state \<Rightarrow> bool" where
  arranque: "tokens st = {} \<Longrightarrow> reachable st"
| login: "reachable st \<Longrightarrow> reachable (snd (post_admin_login env st email password))"
| logout: "reachable st \<Longrightarrow> reachable (snd (post_admin_logout st a))"
| expira: "reachable st \<Longrightarrow> reachable (expirar st t)"
| precios: "reachable st \<Longrightarrow> reachable (snd (post_admin_precios env st a c p))"
| disponibilidad: "reachable st \<Longrightarrow> reachable (snd (get_disponibilidad st c f))"
| reservar: "reachable st \<Longrightarrow> reachable (fst (snd (post_reservar env st b)))"
| cancelar: "reachable st \<Longrightarrow> reachable (snd (post_cancelar env st a i))"
| listado: "reachable st \<Longrightarrow> reachable (snd (get_reservas st a))"

section \<open>Vocabulary of the properties\<close>

text \<open>The six fields that \<^verbatim>\<open>POST /reservar\<close> validates are all there and not empty.\<close>

definition seis_campos :: "reservar_body \<Rightarrow> bool" where
  "seis_campos b =
     (truthy (nombre b) \<and> truthy (apellido b) \<and> truthy (whatsapp b)
      \<and> truthy (cancha b) \<and> truthy (fecha b) \<and> truthy (horario b))"

text \<open>
  Row \<open>r\<close> holds the slot \<open>(c, f, h)\<close>: the store, given the three as parameters, finds
  that the row matches them, and the row is not cancelled. A parameter that the store
  refuses (a text that holds U+0000) matches no row.
\<close>

definition ocupa :: "reserva \<Rightarrow> jsval \<Rightarrow> jsval \<Rightarrow> jsval \<Rightarrow> bool" where
  "ocupa r c f h =
     (textin (prepareValue c) = Inr (Some (r_cancha r))
      \<and> textin (prepareValue f) = Inr (Some (r_fecha r))
      \<and> textin (prepareValue h) = Inr (Some (r_horario r))
      \<and> r_estado r \<noteq> ''cancelada'')"

text \<open>The text of a value, when it has one, does not hold the character U+0000.\<close>

definition sin_nul :: "jsval \<Rightarrow> bool" where
  "sin_nul v = (case prepareValue v of None \<Rightarrow> True | Some s \<Rightarrow> CHR 0x00 \<notin> set s)"

text \<open>
  A value is supplied, its text does not hold U+0000 and is within the \<open>n\<close> characters
  of a column.
\<close>

definition cabe :: "nat \<Rightarrow> jsval \<Rightarrow> bool" where
  "cabe n v =
     (case prepareValue v of None \<Rightarrow> False | Some s \<Rightarrow> CHR 0x00 \<notin> set s \<and> length s \<le> n)"

text \<open>
  Two states hold the same rows of \<open>reservas\<close> and agree on everything else: they
  differ at most in the order in which the store retrieves the rows.
\<close>

definition mismas_filas :: "state \<Rightarrow> state \<Rightarrow> bool" where
  "mismas_filas st st' =
     (st' = st\<lparr>reservas := reservas st'\<rparr> \<and> mset (reservas st') = mset (reservas st))"

text \<open>
  The token of a header as the specification words it: the prefix \<^verbatim>\<open>Bearer \<close> is
  stripped when the header starts with it, and the rest is trimmed.
\<close>

definition token_sin_prefijo :: "string option \<Rightarrow> string" where
  "token_sin_prefijo authorization =
     (let auth = or_default authorization ''''
      in trim (if take 7 auth = ''Bearer '' then drop 7 auth else auth))"

subsection \<open>A running example\<close>

definition env0 :: entorno where
  "env0 = \<lparr>ahora = 1000, N8N_WEBHOOK_URL = Some ''http://n8n.local/webhook'',
           fetch = (\<lambda>url payload. False), ADMIN_EMAIL = None, ADMIN_PASS = None,
           random = (\<lambda>i. word_of_nat (7 * i + 3)),
           orden_reservas = (\<lambda>rows. rows), orden_precios = (\<lambda>rows. rows)\<rparr>"

definition token0 :: string where
  "token0 = ''030a11181f262d343b424950575e656c737a81888f969da4abb2b9c0c7ced5dc''"

definition fila :: "int \<Rightarrow> string \<Rightarrow> string \<Rightarrow> string \<Rightarrow> string \<Rightarrow> reserva" where
  "fila i c f h e =
     \<lparr>r_id = i, r_nombre = ''Ana'', r_apellido = ''Paz'', r_whatsapp = ''5491100000000'',
      r_deporte = ''padel'', r_cancha = c, r_fecha = f, r_horario = h, r_precio = 8000,
      r_estado = e, r_fecha_creacion = 10\<rparr>"

definition st0 :: state where
  "st0 = \<lparr>reservas =
            [fila 1 ''Padel 1'' ''2025-06-01'' ''18:00'' ''confirmada'',
             fila 2 ''Padel 1'' ''2025-06-01'' ''19:00'' ''cancelada'',
             fila 3 ''Padel 2'' ''2025-06-01'' ''18:00'' ''confirmada'',
             fila 4 ''Padel 1'' ''2025-06-01'' ''17:00'' ''confirmada'',
             fila 5 ''Padel 1'' ''2025-06-01'' ''18:00'' ''confirmada''],
          reservas_id_seq = 5,
          precios =
            [\<lparr>p_id = 1, p_cancha = ''Padel 1'', p_precio = 8000, p_actualizado = 1\<rparr>,
             \<lparr>p_id = 2, p_cancha = ''Padel 2'', p_precio = 8000, p_actualizado = 1\<rparr>],
          tokens = {token0}\<rparr>"

definition pedido :: "jsval \<Rightarrow> jsval \<Rightarrow> jsval \<Rightarrow> reservar_body" where
  "pedido n d h =
     \<lparr>nombre = n, apellido = JStr ''Sosa'', whatsapp = JStr ''5491122223333'', deporte = d,
      cancha = JStr ''Padel 1'', fecha = JStr ''2025-06-01'', horario = h, precio = JNum 8000\<rparr>"

definition cabecera0 :: "string option" where
  "cabecera0 = Some (''Bearer '' @ token0)"

section \<open>Basic facts\<close>

lemma andThen_Inl: "andThen (Inl e) f = Inl e"
  by (simp add: andThen_def)

lemma andThen_Inr: "andThen (Inr x) f = f x"
  by (simp add: andThen_def)

lemma andThen_eq_Inr: "andThen r f = Inr y \<longleftrightarrow> (\<exists>x. r = Inr x \<and> f x = Inr y)"
  by (cases r) (simp_all add: andThen_def)

lemma digits_not_Nil: "digits n \<noteq> []"
  by (subst digits.simps) simp

lemma truthy_prepareValue: "truthy v \<Longrightarrow> \<exists>s. prepareValue v = Some s \<and> s \<noteq> []"
  by (cases v) (simp_all add: toString_def decimal_def digits_not_Nil)

lemma textin_None: "textin None = Inr None"
  by (simp add: textin_def)

lemma textin_Some:
  "textin (Some s) = (if CHR 0x00 \<in> set s then Inl character_not_in_repertoire else Inr (Some s))"
  by (simp add: textin_def)

lemma textin_Inr: "textin v = Inr w \<Longrightarrow> w = v"
  by (cases v) (simp_all add: textin_def split: if_splits)

lemma textin_sin_nul: "sin_nul v \<Longrightarrow> textin (prepareValue v) = Inr (prepareValue v)"
  by (auto simp add: sin_nul_def textin_def split: option.splits)

lemma cabe_sin_nul: "cabe n v \<Longrightarrow> sin_nul v"
  by (simp add: cabe_def sin_nul_def split: option.splits)

lemma mset_colocar: "mset (colocar orden xs) = mset xs"
  by (simp add: colocar_def)

lemma token0_generado: "generarToken env0 = token0"
  by (simp add: generarToken_def env0_def token0_def toString_hex_def randomBytes_def
      hex_digit_def upt_conv_Cons)

lemma validarToken_st0: "validarToken st0 cabecera0"
  by (simp add: validarToken_def st0_def cabecera0_def token0_def or_default_def trim_def
      js_space_def)

lemma orden_env0: "colocar (orden_reservas env0) xs = xs" "colocar (orden_precios env0) ys = ys"
  by (simp_all add: colocar_def env0_def)

subsection \<open>Integers as parameters\<close>

text \<open>
  The decimal text that \<^verbatim>\<open>toString()\<close> gives a number is read back by the store as
  that integer, or refused when it does not fit 32 bits.
\<close>

lemma digit_char_cases:
  assumes "d < 10"
  shows "is_digit (digit_char d) \<and> digit_value (digit_char d) = d"
proof -
  have "list_all (\<lambda>d. is_digit (digit_char d) \<and> digit_value (digit_char d) = d) [0..<10]"
    by (simp add: upt_conv_Cons digit_char_def is_digit_def digit_value_def)
  then show ?thesis using assms by (simp add: list_all_iff)
qed

lemma is_digit_plain:
  "is_digit c \<Longrightarrow> \<not> pg_space c \<and> c \<noteq> CHR ''-'' \<and> c \<noteq> CHR ''+'' \<and> c \<noteq> CHR 0x00"
  by (auto simp add: is_digit_def pg_space_def)

lemma digits_is_digit: "c \<in> set (digits n) \<Longrightarrow> is_digit c"
proof (induction n arbitrary: c rule: digits.induct)
  case (1 n)
  show ?case
  proof (cases "n < 10")
    case True
    with "1.prems" show ?thesis
      by (subst (asm) digits.simps) (simp add: digit_char_cases)
  next
    case False
    with "1.prems" have "c \<in> set (digits (n div 10)) \<or> c = digit_char (n mod 10)"
      by (subst (asm) digits.simps) auto
    with False "1.IH" show ?thesis
      using digit_char_cases [of "n mod 10"] by auto
  qed
qed

lemma digits_value_digits: "digits_value (digits n) = n"
proof (induction n rule: digits.induct)
  case (1 n)
  show ?case
  proof (cases "n < 10")
    case True
    then show ?thesis
      by (subst digits.simps) (simp add: digits_value_def digit_char_cases)
  next
    case False
    then have "digits_value (digits n) = 10 * digits_value (digits (n div 10)) + n mod 10"
      by (subst digits.simps) (simp add: digits_value_def digit_char_cases)
    with False "1.IH" show ?thesis by simp
  qed
qed

lemma int4in_digits:
  assumes "ds \<noteq> []" and "\<forall>c \<in> set ds. is_digit c"
  shows "int4in ds =
           (if int (digits_value ds) \<le> 2147483647 then Inr (int (digits_value ds))
            else Inl numeric_value_out_of_range)"
    and "int4in (CHR ''-'' # ds) =
           (if int (digits_value ds) \<le> 2147483648 then Inr (- int (digits_value ds))
            else Inl numeric_value_out_of_range)"
proof -
  obtain c cs where cs: "ds = c # cs" using assms(1) by (cases ds) auto
  have c: "\<not> pg_space c" "c \<noteq> CHR ''-''" "c \<noteq> CHR ''+''"
    using is_digit_plain [of c] assms(2) cs by auto
  have d1: "dropWhile pg_space ds = ds" using c cs by simp
  have d2: "take (Suc 0) ds \<noteq> ''-''" "take (Suc 0) ds \<noteq> ''+''" using c cs by simp_all
  have d3: "takeWhile is_digit ds = ds" "dropWhile is_digit ds = []"
    using assms(2) by (simp_all add: takeWhile_eq_all_conv)
  show "int4in ds =
           (if int (digits_value ds) \<le> 2147483647 then Inr (int (digits_value ds))
            else Inl numeric_value_out_of_range)"
    using assms(1) by (simp add: int4in_def Let_def d1 d2 d3)
  have m: "dropWhile pg_space (CHR ''-'' # ds) = CHR ''-'' # ds"
    by (simp add: pg_space_def)
  show "int4in (CHR ''-'' # ds) =
           (if int (digits_value ds) \<le> 2147483648 then Inr (- int (digits_value ds))
            else Inl numeric_value_out_of_range)"
    using assms(1) unfolding int4in_def Let_def m by (simp add: d3)
qed

lemma int4in_decimal:
  "int4in (decimal n) =
     (if - 2147483648 \<le> n \<and> n \<le> 2147483647 then Inr n else Inl numeric_value_out_of_range)"
proof -
  have d: "digits m \<noteq> []" "\<forall>c \<in> set (digits m). is_digit c" for m
    using digits_not_Nil digits_is_digit by blast+
  show ?thesis
  proof (cases "n < 0")
    case False
    then show ?thesis
      using int4in_digits(1) [OF d, of "nat n"] by (simp add: decimal_def digits_value_digits)
  next
    case True
    then show ?thesis
      using int4in_digits(2) [OF d, of "nat (- n)"] by (simp add: decimal_def digits_value_digits)
  qed
qed

lemma bind_int4_toString:
  "bind_int4 (Some (toString n)) =
     (if - 2147483648 \<le> sint n \<and> sint n \<le> 2147483647 then Inr (Some (sint n))
      else Inl numeric_value_out_of_range)"
  by (simp add: bind_int4_def toString_def int4in_decimal)

lemma bind_int4_JNum:
  "bind_int4 (prepareValue (JNum n)) =
     (if - 2147483648 \<le> sint n \<and> sint n \<le> 2147483647 then Inr (Some (sint n))
      else Inl numeric_value_out_of_range)"
  by (simp add: bind_int4_toString)

lemma decimal_sin_nul: "CHR 0x00 \<notin> set (decimal n)"
  using digits_is_digit is_digit_plain by (auto simp add: decimal_def)

lemma sin_nul_JNum: "sin_nul (JNum n)" and sin_nul_JBool: "sin_nul (JBool b)"
  by (simp_all add: sin_nul_def toString_def decimal_sin_nul)

section \<open>Availability\<close>

text \<open>
  C3, as amended. For a cancha and a fecha that are not empty and whose texts do not
  hold the character U+0000, \<^verbatim>\<open>GET /disponibilidad\<close> answers with the \<open>horario\<close> of every
  stored reservation of that cancha and fecha whose estado is not \<open>cancelada\<close>: in the
  order of the store, once per row (two rows of one horario give it twice). When one
  of the two texts holds U+0000 the store refuses the parameter and the answer is
  \<open>InternalError\<close> (500). Either way the state returned is the state given.
\<close>

theorem disponibilidad_ocupados:
  assumes "truthy c" and "truthy f"
    and "prepareValue c = Some cs" and "prepareValue f = Some fs"
  shows "get_disponibilidad st c f =
           (if CHR 0x00 \<in> set cs \<or> CHR 0x00 \<in> set fs then (Inl InternalError, st)
            else (Inr (map r_horario
                        (filter (\<lambda>r. r_cancha r = cs \<and> r_fecha r = fs
                                     \<and> r_estado r \<noteq> ''cancelada'')
                           (reservas st))), st))
         \<and> status InternalError = 500"
  using assms
  by (simp add: get_disponibilidad_def SELECT_horario_def textin_Some andThen_Inr andThen_Inl
      status_def)

theorem disponibilidad_ocupados_witness:
  "get_disponibilidad st0 (JStr ''Padel 1'') (JStr ''2025-06-01'') =
     (Inr [''18:00'', ''17:00'', ''18:00''], st0)"
  using disponibilidad_ocupados
    [of "JStr ''Padel 1''" "JStr ''2025-06-01''" "''Padel 1''" "''2025-06-01''" st0]
  by (simp add: st0_def fila_def)

text \<open>
  C3 as stated promises the list for every cancha and fecha that are not empty. The
  cancha below is not empty and ends in U+0000: the store refuses it, and the answer
  is \<open>InternalError\<close> where the claim has a list of horarios (the empty one, as no
  row has that cancha).
\<close>

theorem disponibilidad_ocupados_counterexample:
  "truthy (JStr (''Padel 1'' @ [CHR 0x00])) \<and> truthy (JStr ''2025-06-01'')
   \<and> get_disponibilidad st0 (JStr (''Padel 1'' @ [CHR 0x00])) (JStr ''2025-06-01'')
       = (Inl InternalError, st0)"
  by (simp add: get_disponibilidad_def SELECT_horario_def textin_Some andThen_Inl)


section \<open>Cancellation\<close>

lemma validarToken_reservas: "validarToken (st\<lparr>reservas := rows\<rparr>) a = validarToken st a"
  by (simp add: validarToken_def)

lemma post_cancelar_admin:
  "validarToken st a \<Longrightarrow>
   post_cancelar env st a i =
     (case fst (UPDATE_reservas env st i) of
        Inl e \<Rightarrow> (Inl InternalError, snd (UPDATE_reservas env st i))
      | Inr u \<Rightarrow> (Inr (), snd (UPDATE_reservas env st i)))"
  by (cases "UPDATE_reservas env st i")
     (simp add: post_cancelar_def requireAdmin_def split: sum.splits)

lemma UPDATE_reservas_Inr:
  assumes "int4in i = Inr n"
  shows "fst (UPDATE_reservas env st i) = Inr ()"
    and "mismas_filas
           (st\<lparr>reservas :=
              map (\<lambda>r. if r_id r = n then r\<lparr>r_estado := ''cancelada''\<rparr> else r) (reservas st)\<rparr>)
           (snd (UPDATE_reservas env st i))"
    and "\<forall>r \<in> set (reservas st). r_id r \<noteq> n \<Longrightarrow> snd (UPDATE_reservas env st i) = st"
proof -
  let ?f = "\<lambda>r. if r_id r = n then r\<lparr>r_estado := ''cancelada''\<rparr> else r"
  show "fst (UPDATE_reservas env st i) = Inr ()"
    using assms by (simp add: UPDATE_reservas_def)
  show "snd (UPDATE_reservas env st i) = st" if "\<forall>r \<in> set (reservas st). r_id r \<noteq> n"
    using assms that by (simp add: UPDATE_reservas_def list_ex_iff)
  show "mismas_filas (st\<lparr>reservas := map ?f (reservas st)\<rparr>) (snd (UPDATE_reservas env st i))"
  proof (cases "list_ex (\<lambda>r. r_id r = n) (reservas st)")
    case True
    then show ?thesis
      using assms by (simp add: UPDATE_reservas_def mismas_filas_def mset_colocar)
  next
    case False
    then have "map ?f (reservas st) = reservas st"
      by (simp add: list_ex_iff map_idI)
    with False show ?thesis
      using assms by (simp add: UPDATE_reservas_def mismas_filas_def)
  qed
qed

lemma mismas_filas_cancelar:
  assumes "mismas_filas (st\<lparr>reservas := map f (reservas st)\<rparr>) st1"
    and "mismas_filas (st1\<lparr>reservas := map f (reservas st1)\<rparr>) st2"
    and "\<And>r. f (f r) = f r"
  shows "mismas_filas st1 st2"
proof -
  have 1: "mset (reservas st1) = image_mset f (mset (reservas st))"
    and e1: "st1 = st\<lparr>reservas := reservas st1\<rparr>"
    using assms(1) by (simp_all add: mismas_filas_def)
  have 2: "mset (reservas st2) = image_mset f (mset (reservas st1))"
    and e2: "st2 = st1\<lparr>reservas := reservas st2\<rparr>"
    using assms(2) by (simp_all add: mismas_filas_def)
  have "mset (reservas st2) = image_mset (f \<circ> f) (mset (reservas st))"
    using 1 2 by (simp add: multiset.map_comp)
  also have "f \<circ> f = f" using assms(3) by (simp add: fun_eq_iff)
  finally have "mset (reservas st2) = mset (reservas st1)" using 1 by simp
  then show ?thesis using e2 by (simp add: mismas_filas_def)
qed

text \<open>
  C4, as amended. A cancellation that has passed the admin gate, for an id that the
  store reads as the 32-bit integer \<open>n\<close>, answers with success whether or not a row has
  that id and whatever its estado was. The state it leaves holds the rows of before
  with every row of id \<open>n\<close> \<open>cancelada\<close> and no other row changed, in an order that is
  the store's to choose; when no row has the id the whole state is as before; and
  cancelling the same id again answers with success and leaves the same rows, again
  up to their order.
\<close>

theorem cancelar_admin:
  assumes "validarToken st a" and "int4in i = Inr n"
  shows "fst (post_cancelar env st a i) = Inr ()
         \<and> mismas_filas
             (st\<lparr>reservas :=
                map (\<lambda>r. if r_id r = n then r\<lparr>r_estado := ''cancelada''\<rparr> else r) (reservas st)\<rparr>)
             (snd (post_cancelar env st a i))
         \<and> ((\<forall>r \<in> set (reservas st). r_id r \<noteq> n) \<longrightarrow> snd (post_cancelar env st a i) = st)
         \<and> fst (post_cancelar env' (snd (post_cancelar env st a i)) a i) = Inr ()
         \<and> mismas_filas (snd (post_cancelar env st a i))
             (snd (post_cancelar env' (snd (post_cancelar env st a i)) a i))"
proof -
  let ?f = "\<lambda>r. if r_id r = n then r\<lparr>r_estado := ''cancelada''\<rparr> else r"
  let ?st1 = "snd (UPDATE_reservas env st i)"
  let ?st2 = "snd (UPDATE_reservas env' ?st1 i)"
  note u1 = UPDATE_reservas_Inr [OF assms(2), where env = env and st = st]
  have p1: "post_cancelar env st a i = (Inr (), ?st1)"
    using u1(1) by (simp add: post_cancelar_admin [OF assms(1)])
  have "?st1 = st\<lparr>reservas := reservas ?st1\<rparr>"
    using u1(2) by (simp add: mismas_filas_def)
  then have gate: "validarToken ?st1 a"
    using assms(1) validarToken_reservas [where st = st and rows = "reservas ?st1" and a = a]
    by simp
  note u2 = UPDATE_reservas_Inr [OF assms(2), where env = env' and st = "?st1"]
  have p2: "post_cancelar env' ?st1 a i = (Inr (), ?st2)"
    using u2(1) by (simp add: post_cancelar_admin [OF gate])
  have idem: "mismas_filas ?st1 ?st2"
    by (rule mismas_filas_cancelar [OF u1(2) u2(2)]) simp
  show ?thesis
    using u1(2,3) idem by (simp add: p1 p2)
qed

theorem cancelar_admin_witness:
  "validarToken st0 cabecera0 \<and> int4in ''99'' = Inr 99
   \<and> post_cancelar env0 st0 cabecera0 ''99'' = (Inr (), st0)
   \<and> int4in ''2'' = Inr 2
   \<and> fst (post_cancelar env0 st0 cabecera0 ''2'') = Inr ()
   \<and> mset (map r_estado (reservas (snd (post_cancelar env0 st0 cabecera0 ''1''))))
       = mset [''cancelada'', ''cancelada'', ''confirmada'', ''confirmada'', ''confirmada'']
   \<and> mset (reservas (snd (post_cancelar (env0\<lparr>orden_reservas := rotate1\<rparr>)
                             (snd (post_cancelar env0 st0 cabecera0 ''1'')) cabecera0 ''1'')))
       = mset (reservas (snd (post_cancelar env0 st0 cabecera0 ''1'')))"
proof -
  have i99: "int4in ''99'' = Inr 99" and i2: "int4in ''2'' = Inr 2" and i1: "int4in ''1'' = Inr 1"
    by (simp_all add: int4in_def pg_space_def is_digit_def digits_value_def digit_value_def)
  have none: "\<forall>r \<in> set (reservas st0). r_id r \<noteq> 99"
    by (simp add: st0_def fila_def)
  have "post_cancelar env0 st0 cabecera0 ''99'' = (Inr (), st0)"
    using cancelar_admin [OF validarToken_st0 i99, where env = env0 and env' = env0] none
    by (simp add: prod_eq_iff)
  moreover have "fst (post_cancelar env0 st0 cabecera0 ''2'') = Inr ()"
    using cancelar_admin [OF validarToken_st0 i2, where env = env0 and env' = env0] by simp
  moreover have "mset (map r_estado (reservas (snd (post_cancelar env0 st0 cabecera0 ''1''))))
       = mset [''cancelada'', ''cancelada'', ''confirmada'', ''confirmada'', ''confirmada'']"
  proof -
    have "mset (reservas (snd (post_cancelar env0 st0 cabecera0 ''1'')))
        = image_mset (\<lambda>r. if r_id r = 1 then r\<lparr>r_estado := ''cancelada''\<rparr> else r)
            (mset (reservas st0))"
      using cancelar_admin [OF validarToken_st0 i1, where env = env0 and env' = env0]
      by (simp add: mismas_filas_def)
    then have "image_mset r_estado (mset (reservas (snd (post_cancelar env0 st0 cabecera0 ''1''))))
        = image_mset r_estado (image_mset (\<lambda>r. if r_id r = 1 then r\<lparr>r_estado := ''cancelada''\<rparr> else r)
            (mset (reservas st0)))"
      by simp
    then show ?thesis by (simp add: st0_def fila_def)
  qed
  moreover have "mset (reservas (snd (post_cancelar (env0\<lparr>orden_reservas := rotate1\<rparr>)
                             (snd (post_cancelar env0 st0 cabecera0 ''1'')) cabecera0 ''1'')))
       = mset (reservas (snd (post_cancelar env0 st0 cabecera0 ''1'')))"
    using cancelar_admin [OF validarToken_st0 i1, where env = env0 and env' = "env0\<lparr>orden_reservas := rotate1\<rparr>"]
    by (simp add: mismas_filas_def)
  ultimately show ?thesis
    using validarToken_st0 i99 i2 by simp
qed

text \<open>
  C4 as stated promises success for every id. With a live token, the id 2147483648,
  which no row has, is one more than the \<^verbatim>\<open>INTEGER\<close> parameter takes: the store refuses
  it and the answer is \<open>InternalError\<close>, the state as before. And the cancellation of
  id 1 that carries no token is answered \<open>Unauthorized\<close>, row 1 staying confirmed.
\<close>

theorem cancelar_admin_counterexample:
  "validarToken st0 cabecera0
   \<and> list_all (\<lambda>r. r_id r \<noteq> 2147483648) (reservas st0)
   \<and> post_cancelar env0 st0 cabecera0 ''2147483648'' = (Inl InternalError, st0)
   \<and> post_cancelar env0 st0 None ''1'' = (Inl Unauthorized, st0)"
proof -
  have "int4in ''2147483648'' = Inl numeric_value_out_of_range"
    by (simp add: int4in_def pg_space_def is_digit_def digits_value_def digit_value_def)
  then have "UPDATE_reservas env0 st0 ''2147483648'' = (Inl numeric_value_out_of_range, st0)"
    by (simp add: UPDATE_reservas_def)
  then have "post_cancelar env0 st0 cabecera0 ''2147483648'' = (Inl InternalError, st0)"
    by (simp add: post_cancelar_admin [OF validarToken_st0])
  moreover have "list_all (\<lambda>r. r_id r \<noteq> 2147483648) (reservas st0)"
    by (simp add: st0_def fila_def)
  moreover have "\<not> validarToken st0 None"
    by (simp add: validarToken_def or_default_def trim_def st0_def token0_def)
  then have "post_cancelar env0 st0 None ''1'' = (Inl Unauthorized, st0)"
    by (simp add: post_cancelar_def requireAdmin_def)
  ultimately show ?thesis using validarToken_st0 by simp
qed


section \<open>The admin gate: tokens\<close>

lemma or_default_empty: "or_default v '''' = (case v of None \<Rightarrow> [] | Some s \<Rightarrow> s)"
  by (simp add: or_default_def split: option.splits)

lemma replace_sin_B: "CHR ''B'' \<notin> set s \<Longrightarrow> replace s ''Bearer '' '''' = s"
proof (induction s)
  case Nil
  then show ?case by simp
next
  case (Cons c cs)
  then show ?case by auto
qed

lemma dropWhile_id: "\<forall>c \<in> set s. \<not> P c \<Longrightarrow> dropWhile P s = s"
  by (cases s) simp_all

lemma trim_sin_espacios: "\<forall>c \<in> set s. \<not> js_space c \<Longrightarrow> trim s = s"
  by (simp add: trim_def dropWhile_id)

lemma hex_digit_hex: "hex_digit d \<in> set ''0123456789abcdef''"
  unfolding hex_digit_def by (rule nth_mem) simp

lemma toString_hex_hex: "set (toString_hex bs) \<subseteq> set ''0123456789abcdef''"
  unfolding toString_hex_def using hex_digit_hex by (induction bs) auto

lemma generarToken_hex: "c \<in> set (generarToken env) \<Longrightarrow> c \<in> set ''0123456789abcdef''"
  unfolding generarToken_def using toString_hex_hex by blast

lemma generarToken_tal_cual:
  "trim (replace (generarToken env) ''Bearer '' '''') = generarToken env"
proof -
  have B: "CHR ''B'' \<notin> set (generarToken env)"
    using generarToken_hex [of "CHR ''B''" env] by auto
  have sp: "\<forall>c \<in> set (generarToken env). \<not> js_space c"
  proof
    fix c assume "c \<in> set (generarToken env)"
    then have "c \<in> set ''0123456789abcdef''" by (rule generarToken_hex)
    then show "\<not> js_space c" by (auto simp: js_space_def)
  qed
  show ?thesis by (simp add: replace_sin_B [OF B] trim_sin_espacios [OF sp])
qed

lemma tokens_INSERT_reservas: "tokens (snd (INSERT_reservas env st b)) = tokens st"
  by (simp add: INSERT_reservas_def split: sum.splits prod.splits)

lemma tokens_post_reservar: "tokens (fst (snd (post_reservar env st b))) = tokens st"
proof (cases "INSERT_reservas env st b")
  case (Pair r st')
  with tokens_INSERT_reservas [of env st b] have "tokens st' = tokens st" by simp
  with Pair show ?thesis
    by (cases r; cases "N8N_WEBHOOK_URL env";
        cases "SELECT_id st (cancha b) (fecha b) (horario b)")
       (simp_all add: post_reservar_def)
qed

lemma tokens_UPDATE_precios: "tokens (snd (UPDATE_precios env st p c)) = tokens st"
  by (simp add: UPDATE_precios_def split: sum.splits prod.splits)

lemma tokens_post_admin_precios: "tokens (snd (post_admin_precios env st a c p)) = tokens st"
proof (cases "UPDATE_precios env st p c")
  case (Pair r st')
  with tokens_UPDATE_precios [of env st p c] have "tokens st' = tokens st" by simp
  with Pair show ?thesis
    by (cases r) (simp_all add: post_admin_precios_def requireAdmin_def)
qed

lemma tokens_UPDATE_reservas: "tokens (snd (UPDATE_reservas env st i)) = tokens st"
  by (simp add: UPDATE_reservas_def split: sum.splits)

lemma tokens_post_cancelar: "tokens (snd (post_cancelar env st a i)) = tokens st"
proof (cases "UPDATE_reservas env st i")
  case (Pair r st')
  with tokens_UPDATE_reservas [of env st i] have "tokens st' = tokens st" by simp
  with Pair show ?thesis
    by (cases r) (simp_all add: post_cancelar_def requireAdmin_def)
qed

lemma tokens_generados:
  "reachable st \<Longrightarrow> t \<in> tokens st \<Longrightarrow> \<exists>env. t = generarToken env"
proof (induction arbitrary: t rule: reachable.induct)
  case (arranque st)
  then show ?case by simp
next
  case (login st env email password)
  then show ?case
    by (auto simp add: post_admin_login_def Let_def split: if_splits)
next
  case (logout st a)
  then show ?case by (auto simp add: post_admin_logout_def Let_def)
next
  case (expira st t')
  then show ?case by (auto simp add: expirar_def)
next
  case (precios st env a c p)
  then show ?case by (simp add: tokens_post_admin_precios)
next
  case (disponibilidad st c f)
  then show ?case by (simp add: get_disponibilidad_def split: if_splits sum.splits)
next
  case (reservar st env b)
  then show ?case by (simp add: tokens_post_reservar)
next
  case (cancelar st env a i)
  then show ?case by (simp add: tokens_post_cancelar)
next
  case (listado st a)
  then show ?case by (simp add: get_reservas_def requireAdmin_def split: if_splits)
qed

text \<open>
  C10. The gate takes a token that comes without the \<^verbatim>\<open>Bearer \<close> prefix. In every state
  the process can reach, a request whose authorization header is a live token \<open>t\<close>
  itself passes \<open>validarToken\<close>, and \<open>requireAdmin\<close> hands over to the guarded handler:
  a token is made of hexadecimal digits, so \<^verbatim>\<open>replace('Bearer ', '')\<close> finds nothing to remove
  and \<^verbatim>\<open>trim()\<close> nothing to cut.
\<close>

theorem token_sin_Bearer:
  assumes "reachable st" and "t \<in> tokens st"
  shows "validarToken st (Some t) \<and> requireAdmin st (Some t) next = next st"
proof -
  obtain env where t: "t = generarToken env"
    using tokens_generados [OF assms] by blast
  have "trim (replace t ''Bearer '' '''') = t"
    unfolding t by (rule generarToken_tal_cual)
  then have "validarToken st (Some t)"
    using assms(2) by (simp add: validarToken_def or_default_empty)
  then show ?thesis by (simp add: requireAdmin_def)
qed

lemma st0_reachable: "reachable st0"
proof -
  have "reachable (st0\<lparr>tokens := {}\<rparr>)"
    by (rule reachable.arranque) simp
  then have "reachable (snd (post_admin_login env0 (st0\<lparr>tokens := {}\<rparr>)
                (JStr ''admin@picodeportes.com'') (JStr ''PicoAdmin2025'')))"
    by (rule reachable.login)
  moreover have "snd (post_admin_login env0 (st0\<lparr>tokens := {}\<rparr>)
                (JStr ''admin@picodeportes.com'') (JStr ''PicoAdmin2025'')) = st0"
  proof -
    have "ADMIN_EMAIL env0 = None" and "ADMIN_PASS env0 = None"
      by (simp_all add: env0_def)
    then show ?thesis
      by (simp add: post_admin_login_def token0_generado or_default_def st0_def Let_def)
  qed
  ultimately show ?thesis by simp
qed

theorem token_sin_Bearer_witness:
  "reachable st0 \<and> token0 \<in> tokens st0 \<and> validarToken st0 (Some token0)
   \<and> fst (post_cancelar env0 st0 (Some token0) ''99'') = Inr ()"
proof -
  have t: "token0 \<in> tokens st0" by (simp add: st0_def)
  have i99: "int4in ''99'' = Inr 99"
    by (simp add: int4in_def pg_space_def is_digit_def digits_value_def digit_value_def)
  show ?thesis
    using token_sin_Bearer [OF st0_reachable t, of "\<lambda>s. (Inr (), s)"] st0_reachable t i99
    by (simp add: post_cancelar_def requireAdmin_def UPDATE_reservas_def)
qed

section \<open>The admin gate: requests without a live token\<close>

text \<open>
  C5, as amended. The token of a request is what is left of its authorization header
  (the empty string when there is none) after the first occurrence of \<^verbatim>\<open>Bearer \<close>,
  wherever it stands, is removed and the result trimmed. When that token is not in the
  live set, the price update, the cancellation and the listing all answer
  \<open>Unauthorized\<close> (401) and return the state they were given: the guarded handler
  does not run.
\<close>

theorem admin_sin_token:
  assumes "trim (replace (or_default a '''') ''Bearer '' '''') \<notin> tokens st"
  shows "post_admin_precios env st a c p = (Inl Unauthorized, st)
         \<and> post_cancelar env st a i = (Inl Unauthorized, st)
         \<and> get_reservas st a = (Inl Unauthorized, st)
         \<and> status Unauthorized = 401"
  using assms
  by (simp add: post_admin_precios_def post_cancelar_def get_reservas_def requireAdmin_def
      validarToken_def status_def)

theorem admin_sin_token_witness:
  "trim (replace (or_default (Some ''Bearer 0000'') '''') ''Bearer '' '''') \<notin> tokens st0
   \<and> post_admin_precios env0 st0 (Some ''Bearer 0000'') (JStr ''Padel 1'') (JNum 9000)
       = (Inl Unauthorized, st0)
   \<and> post_cancelar env0 st0 None ''1'' = (Inl Unauthorized, st0)
   \<and> get_reservas st0 (Some ''Bearer 0000'') = (Inl Unauthorized, st0)"
proof -
  have a: "trim (replace (or_default (Some ''Bearer 0000'') '''') ''Bearer '' '''') \<notin> tokens st0"
    by (simp add: or_default_def trim_def js_space_def st0_def token0_def)
  have b: "trim (replace (or_default None '''') ''Bearer '' '''') \<notin> tokens st0"
    by (simp add: or_default_def trim_def js_space_def st0_def token0_def)
  show ?thesis
    using admin_sin_token [OF a, of env0 "JStr ''Padel 1''" "JNum 9000" "''1''"]
      admin_sin_token [OF b, of env0 "JStr ''Padel 1''" "JNum 9000" "''1''"] a
    by simp
qed

text \<open>
  C5 as stated reads the token by stripping a \<^verbatim>\<open>Bearer \<close> prefix. In the reachable
  state \<open>st0\<close>, whose one live token is \<open>token0\<close>, the header that puts \<^verbatim>\<open>Bearer \<close>
  after the token's first character has no such prefix, and what it holds is not a live
  token; yet the gate takes \<open>token0\<close> out of it, the listing is not refused and the
  cancellation changes the store.
\<close>

theorem admin_sin_token_counterexample:
  "reachable st0
   \<and> token_sin_prefijo (Some (''0Bearer '' @ drop 1 token0)) \<notin> tokens st0
   \<and> fst (get_reservas st0 (Some (''0Bearer '' @ drop 1 token0))) \<noteq> Inl Unauthorized
   \<and> snd (post_cancelar env0 st0 (Some (''0Bearer '' @ drop 1 token0)) ''1'') \<noteq> st0"
proof -
  have v: "validarToken st0 (Some (''0Bearer '' @ drop 1 token0))"
    by (simp add: validarToken_def st0_def token0_def or_default_def trim_def js_space_def)
  have s: "token_sin_prefijo (Some (''0Bearer '' @ drop 1 token0)) \<notin> tokens st0"
    by (simp add: token_sin_prefijo_def st0_def token0_def or_default_def trim_def js_space_def)
  have i1: "int4in ''1'' = Inr 1"
    by (simp add: int4in_def pg_space_def is_digit_def digits_value_def digit_value_def)
  have c: "reservas (snd (post_cancelar env0 st0 (Some (''0Bearer '' @ drop 1 token0)) ''1'')) \<noteq> reservas st0"
    using v i1
    by (simp add: post_cancelar_def requireAdmin_def UPDATE_reservas_def orden_env0 st0_def fila_def)
  then have "snd (post_cancelar env0 st0 (Some (''0Bearer '' @ drop 1 token0)) ''1'') \<noteq> st0"
    by auto
  then show ?thesis
    using st0_reachable s v by (simp add: get_reservas_def requireAdmin_def)
qed


section \<open>Price update\<close>

lemma post_admin_precios_admin:
  "validarToken st a \<Longrightarrow>
   post_admin_precios env st a c p =
     (if \<not> truthy c \<or> p = JUndefined then (Inl BadRequest, st)
      else (case fst (UPDATE_precios env st p c) of
              Inl e \<Rightarrow> (Inl InternalError, snd (UPDATE_precios env st p c))
            | Inr u \<Rightarrow> (Inr (), snd (UPDATE_precios env st p c))))"
  by (cases "UPDATE_precios env st p c")
     (simp add: post_admin_precios_def requireAdmin_def split: sum.splits)

lemma bind_cero: "bind_int4 (Some (toString 0)) = Inr (Some 0)"
  by (simp add: bind_int4_toString)

lemma UPDATE_precios_sin_fila:
  assumes "\<forall>r \<in> set (precios st). Some (p_cancha r) \<noteq> prepareValue c"
  shows "snd (UPDATE_precios env st p c) = st"
    and "bind_int4 (prepareValue p) = Inr v \<Longrightarrow> sin_nul c \<Longrightarrow>
         UPDATE_precios env st p c = (Inr (), st)"
proof -
  have no: "\<not> list_ex (\<lambda>r. Some (p_cancha r) = prepareValue c) (precios st)"
    using assms by (simp add: list_ex_iff)
  show "snd (UPDATE_precios env st p c) = st"
  proof (cases "andThen (bind_int4 (prepareValue p)) (\<lambda>v.
           andThen (textin (prepareValue c)) (\<lambda>c. Inr (v, c)))")
    case (Inl e)
    then show ?thesis by (simp add: UPDATE_precios_def)
  next
    case (Inr vc)
    obtain v' c' where vc: "vc = (v', c')" by (cases vc)
    have "c' = prepareValue c"
      using Inr unfolding vc by (auto simp add: andThen_eq_Inr dest: textin_Inr)
    then show ?thesis using Inr no by (simp add: UPDATE_precios_def vc)
  qed
  show "UPDATE_precios env st p c = (Inr (), st)"
    if "bind_int4 (prepareValue p) = Inr v" and "sin_nul c"
    using that no by (simp add: UPDATE_precios_def andThen_Inr textin_sin_nul)
qed

text \<open>
  C6, as amended. \<^verbatim>\<open>POST /admin/precios\<close> answers \<open>BadRequest\<close> (400) exactly when the
  request has passed the admin gate and either \<open>cancha\<close> is falsy (absent, null, false,
  0 or the empty string) or \<open>precio\<close> is absent (undefined). A request past the gate
  with a truthy \<open>cancha\<close> and \<open>precio\<close> 0 is therefore not answered with \<open>BadRequest\<close>.
\<close>

theorem precios_faltan_datos:
  "(fst (post_admin_precios env st a c p) = Inl BadRequest
      \<longleftrightarrow> validarToken st a \<and> (\<not> truthy c \<or> p = JUndefined))
   \<and> status BadRequest = 400"
proof (cases "validarToken st a")
  case True
  then show ?thesis
    by (simp add: post_admin_precios_admin status_def split: sum.splits)
next
  case False
  then show ?thesis
    by (simp add: post_admin_precios_def requireAdmin_def status_def)
qed

theorem precios_faltan_datos_witness:
  "fst (post_admin_precios env0 st0 cabecera0 (JStr ''Padel 1'') (JNum 0)) \<noteq> Inl BadRequest
   \<and> fst (post_admin_precios env0 st0 cabecera0 (JStr ''Padel 1'') JUndefined) = Inl BadRequest
   \<and> fst (post_admin_precios env0 st0 cabecera0 JUndefined (JNum 0)) = Inl BadRequest
   \<and> map p_precio (precios (snd (post_admin_precios env0 st0 cabecera0 (JStr ''Padel 1'') (JNum 0))))
       = [0, 8000]"
proof -
  have "map p_precio (precios (snd (post_admin_precios env0 st0 cabecera0 (JStr ''Padel 1'') (JNum 0))))
       = [0, 8000]"
  proof -
    have "map p_precio (precios (snd (UPDATE_precios env0 st0 (JNum 0) (JStr ''Padel 1'')))) = [0, 8000]"
      and "fst (UPDATE_precios env0 st0 (JNum 0) (JStr ''Padel 1'')) = Inr ()"
      by (simp_all add: UPDATE_precios_def bind_cero textin_Some andThen_Inr not_null_def
          orden_env0 st0_def)
    then show ?thesis
      by (simp add: post_admin_precios_admin [OF validarToken_st0])
  qed
  then show ?thesis
    using precios_faltan_datos [of env0 st0 cabecera0 "JStr ''Padel 1''" "JNum 0"]
      precios_faltan_datos [of env0 st0 cabecera0 "JStr ''Padel 1''" JUndefined]
      precios_faltan_datos [of env0 st0 cabecera0 JUndefined "JNum 0"]
      validarToken_st0
    by simp
qed

text \<open>
  C6 as stated has \<open>BadRequest\<close> only for an absent argument. A request past the gate
  whose \<open>cancha\<close> is there as the empty string and whose \<open>precio\<close> is 0 has both
  arguments, and is answered with \<open>BadRequest\<close>.
\<close>

theorem precios_faltan_datos_counterexample:
  "validarToken st0 cabecera0 \<and> JStr [] \<noteq> JUndefined \<and> JNum 0 \<noteq> JUndefined
   \<and> post_admin_precios env0 st0 cabecera0 (JStr []) (JNum 0) = (Inl BadRequest, st0)"
  using validarToken_st0 by (simp add: post_admin_precios_admin [OF validarToken_st0])

text \<open>
  C7, as amended. When \<open>cancha\<close> names no row of \<open>precios\<close>, \<^verbatim>\<open>POST /admin/precios\<close>
  returns the state it was given, whatever the token and the price. It answers with
  success when, moreover, the request has passed the admin gate, \<open>cancha\<close> is truthy
  and its text does not hold U+0000, and \<open>precio\<close> is present and binds to the
  \<^verbatim>\<open>INTEGER\<close> parameter (null, or the text of an integer within 32 bits).
\<close>

theorem precios_cancha_sin_fila:
  assumes "\<forall>r \<in> set (precios st). Some (p_cancha r) \<noteq> prepareValue c"
  shows "snd (post_admin_precios env st a c p) = st
         \<and> (validarToken st a \<and> truthy c \<and> sin_nul c \<and> p \<noteq> JUndefined
              \<and> bind_int4 (prepareValue p) = Inr v
              \<longrightarrow> post_admin_precios env st a c p = (Inr (), st))"
proof -
  note u = UPDATE_precios_sin_fila [OF assms]
  have "snd (post_admin_precios env st a c p) = st"
  proof (cases "validarToken st a")
    case True
    then show ?thesis using u(1) by (simp add: post_admin_precios_admin split: sum.splits)
  next
    case False
    then show ?thesis by (simp add: post_admin_precios_def requireAdmin_def)
  qed
  then show ?thesis using u(2) by (simp add: post_admin_precios_admin)
qed

theorem precios_cancha_sin_fila_witness:
  "list_all (\<lambda>r. Some (p_cancha r) \<noteq> prepareValue (JStr ''Cancha 9'')) (precios st0)
   \<and> validarToken st0 cabecera0 \<and> sin_nul (JStr ''Cancha 9'')
   \<and> bind_int4 (prepareValue (JNum 0)) = Inr (Some 0)
   \<and> post_admin_precios env0 st0 cabecera0 (JStr ''Cancha 9'') (JNum 0) = (Inr (), st0)"
proof -
  have h: "\<forall>r \<in> set (precios st0). Some (p_cancha r) \<noteq> prepareValue (JStr ''Cancha 9'')"
    by (simp add: st0_def)
  have b: "bind_int4 (prepareValue (JNum 0)) = Inr (Some 0)"
    by (simp add: bind_cero)
  have n: "sin_nul (JStr ''Cancha 9'')"
    by (simp add: sin_nul_def)
  show ?thesis
    using precios_cancha_sin_fila [OF h, of env0 cabecera0 "JNum 0" "Some 0"] h validarToken_st0 b n
    by (simp add: list_all_iff)
qed

text \<open>
  C7 as stated promises success to every authenticated price update that names a
  cancha without a row. One that carries no \<open>precio\<close> is answered with \<open>BadRequest\<close>,
  one whose \<open>precio\<close> is beyond 32 bits with \<open>InternalError\<close>, and so is one whose
  \<open>cancha\<close> ends in U+0000, which the store refuses as a text.
\<close>

theorem precios_cancha_sin_fila_counterexample:
  "validarToken st0 cabecera0 \<and> truthy (JStr ''Cancha 9'')
   \<and> list_all (\<lambda>r. p_cancha r \<noteq> ''Cancha 9'') (precios st0)
   \<and> post_admin_precios env0 st0 cabecera0 (JStr ''Cancha 9'') JUndefined = (Inl BadRequest, st0)
   \<and> post_admin_precios env0 st0 cabecera0 (JStr ''Cancha 9'') (JNum 2147483648)
       = (Inl InternalError, st0)
   \<and> truthy (JStr (''Cancha 9'' @ [CHR 0x00]))
   \<and> list_all (\<lambda>r. p_cancha r \<noteq> ''Cancha 9'' @ [CHR 0x00]) (precios st0)
   \<and> post_admin_precios env0 st0 cabecera0 (JStr (''Cancha 9'' @ [CHR 0x00])) (JNum 0)
       = (Inl InternalError, st0)"
proof -
  have "list_all (\<lambda>r. p_cancha r \<noteq> ''Cancha 9'') (precios st0)"
    and "list_all (\<lambda>r. p_cancha r \<noteq> ''Cancha 9'' @ [CHR 0x00]) (precios st0)"
    by (simp_all add: st0_def)
  moreover have "UPDATE_precios env0 st0 (JNum 2147483648) (JStr ''Cancha 9'')
      = (Inl numeric_value_out_of_range, st0)"
    by (simp add: UPDATE_precios_def bind_int4_toString andThen_Inl)
  moreover have "UPDATE_precios env0 st0 (JNum 0) (JStr (''Cancha 9'' @ [CHR 0x00]))
      = (Inl character_not_in_repertoire, st0)"
    by (simp add: UPDATE_precios_def bind_cero textin_Some andThen_Inr andThen_Inl)
  ultimately show ?thesis
    using validarToken_st0 by (simp add: post_admin_precios_admin [OF validarToken_st0])
qed


section \<open>Reservation\<close>

lemma SELECT_id_eq:
  "SELECT_id st c f h =
     (if sin_nul c \<and> sin_nul f \<and> sin_nul h
      then Inr (map r_id (filter (\<lambda>r. ocupa r c f h) (reservas st)))
      else Inl character_not_in_repertoire)"
proof (cases "sin_nul c \<and> sin_nul f \<and> sin_nul h")
  case True
  then have t: "textin (prepareValue c) = Inr (prepareValue c)"
    "textin (prepareValue f) = Inr (prepareValue f)"
    "textin (prepareValue h) = Inr (prepareValue h)"
    by (simp_all add: textin_sin_nul)
  have "(\<lambda>r. Some (r_cancha r) = prepareValue c \<and> Some (r_fecha r) = prepareValue f
              \<and> Some (r_horario r) = prepareValue h \<and> r_estado r \<noteq> ''cancelada'')
        = (\<lambda>r. ocupa r c f h)"
    by (auto simp add: ocupa_def t fun_eq_iff)
  then show ?thesis
    using True by (simp add: SELECT_id_def t andThen_Inr)
next
  case False
  have nul: "\<not> sin_nul v \<Longrightarrow> textin (prepareValue v) = Inl character_not_in_repertoire" for v
    by (auto simp add: sin_nul_def textin_def split: option.splits)
  have ok: "sin_nul v \<Longrightarrow> textin (prepareValue v) = Inr (prepareValue v)" for v
    by (rule textin_sin_nul)
  show ?thesis
  proof (cases "sin_nul c")
    case c: False
    then show ?thesis using False by (simp add: SELECT_id_def nul andThen_Inl)
  next
    case c: True
    show ?thesis
    proof (cases "sin_nul f")
      case f: False
      then show ?thesis using False c by (simp add: SELECT_id_def nul ok andThen_Inl andThen_Inr)
    next
      case f: True
      then have "\<not> sin_nul h" using False c by simp
      then show ?thesis using False c f by (simp add: SELECT_id_def nul ok andThen_Inl andThen_Inr)
    qed
  qed
qed

lemma SELECT_id_ocupa:
  assumes "r \<in> set (reservas st)" and "ocupa r c f h"
  shows "\<exists>ids. SELECT_id st c f h = Inr ids \<and> ids \<noteq> []"
proof -
  have "sin_nul c \<and> sin_nul f \<and> sin_nul h"
    using assms(2)
    by (auto simp add: ocupa_def sin_nul_def textin_def split: option.splits if_splits)
  moreover have "filter (\<lambda>r. ocupa r c f h) (reservas st) \<noteq> []"
    using assms by (auto simp add: filter_empty_conv)
  ultimately show ?thesis by (simp add: SELECT_id_eq)
qed

lemma SELECT_id_Nil:
  "SELECT_id st c f h = Inr [] \<longleftrightarrow>
     sin_nul c \<and> sin_nul f \<and> sin_nul h \<and> (\<forall>r \<in> set (reservas st). \<not> ocupa r c f h)"
  by (auto simp add: SELECT_id_eq filter_empty_conv)

lemma varchar_None: "varchar n None = Inr None"
  by (simp add: varchar_def)

lemma varchar_cabe: "cabe n v \<Longrightarrow> varchar n (prepareValue v) = Inr (prepareValue v)"
  by (auto simp add: cabe_def varchar_def split: option.splits)

lemma varchar_Some: "varchar n (Some s) = Inr v \<Longrightarrow> \<exists>s'. v = Some s'"
  by (auto simp add: varchar_def split: if_splits)

lemma varchar_truthy: "truthy v \<Longrightarrow> varchar k (prepareValue v) = Inr x \<Longrightarrow> \<exists>s. x = Some s"
  using truthy_prepareValue [of v] varchar_Some [of k _ x] by auto

lemma bind_valores_cols:
  assumes "bind_valores b = Inr (n, a, w, d, c, f, h, p)"
  shows "varchar 100 (prepareValue (nombre b)) = Inr n"
    and "varchar 100 (prepareValue (apellido b)) = Inr a"
    and "varchar 30 (prepareValue (whatsapp b)) = Inr w"
    and "varchar 50 (prepareValue (deporte b)) = Inr d"
proof -
  obtain n0 a0 w0 d0 where t: "textin (prepareValue (nombre b)) = Inr n0"
      "textin (prepareValue (apellido b)) = Inr a0"
      "textin (prepareValue (whatsapp b)) = Inr w0"
      "textin (prepareValue (deporte b)) = Inr d0"
    and v: "varchar 100 n0 = Inr n" "varchar 100 a0 = Inr a" "varchar 30 w0 = Inr w"
      "varchar 50 d0 = Inr d"
    using assms unfolding bind_valores_def andThen_eq_Inr by blast
  show "varchar 100 (prepareValue (nombre b)) = Inr n"
    using textin_Inr [OF t(1)] v(1) by simp
  show "varchar 100 (prepareValue (apellido b)) = Inr a"
    using textin_Inr [OF t(2)] v(2) by simp
  show "varchar 30 (prepareValue (whatsapp b)) = Inr w"
    using textin_Inr [OF t(3)] v(3) by simp
  show "varchar 50 (prepareValue (deporte b)) = Inr d"
    using textin_Inr [OF t(4)] v(4) by simp
qed

lemma bind_valores_cabe:
  assumes "cabe 100 (nombre b)" "cabe 100 (apellido b)" "cabe 30 (whatsapp b)"
    "cabe 50 (deporte b)" "cabe 100 (cancha b)" "cabe 100 (fecha b)" "cabe 10 (horario b)"
    and "bind_int4 (prepareValue (precio b)) = Inr p"
  shows "bind_valores b =
           Inr (prepareValue (nombre b), prepareValue (apellido b), prepareValue (whatsapp b),
                prepareValue (deporte b), prepareValue (cancha b), prepareValue (fecha b),
                prepareValue (horario b), p)"
  using assms
  by (simp add: bind_valores_def varchar_cabe textin_sin_nul cabe_sin_nul andThen_Inr)

lemma fila_nueva_Some:
  "fila_nueva env i (Some n, Some a, Some w, Some d, Some c, Some f, Some h, Some p) =
     Inr \<lparr>r_id = i, r_nombre = n, r_apellido = a, r_whatsapp = w, r_deporte = d,
          r_cancha = c, r_fecha = f, r_horario = h, r_precio = p,
          r_estado = ''confirmada'', r_fecha_creacion = ahora env\<rparr>"
  by (simp add: not_null_def andThen_Inr)

lemma fila_nueva_sin_deporte:
  "fila_nueva env i (Some n, Some a, Some w, None, c, f, h, p) = Inl (not_null_violation ''deporte'')"
  by (simp add: not_null_def andThen_Inr andThen_Inl)

lemma fila_nueva_sin_deporte_Inl:
  "\<exists>e. fila_nueva env i (n, a, w, None, c, f, h, p) = Inl e"
  by (cases n; cases a; cases w) (simp_all add: not_null_def andThen_Inr andThen_Inl)

lemma INSERT_reservas_cases:
  "(\<exists>e st'. INSERT_reservas env st b = (Inl e, st') \<and> reservas st' = reservas st)
   \<or> (\<exists>row. INSERT_reservas env st b =
         (Inr (reservas_id_seq st + 1),
          st\<lparr>reservas_id_seq := reservas_id_seq st + 1, reservas := reservas st @ [row]\<rparr>)
        \<and> r_id row = reservas_id_seq st + 1 \<and> r_estado row = ''confirmada''
        \<and> (\<exists>vs. bind_valores b = Inr vs
               \<and> fila_nueva env (reservas_id_seq st + 1) vs = Inr row))"
proof (cases "bind_valores b")
  case (Inl e)
  then show ?thesis by (simp add: INSERT_reservas_def)
next
  case vs: (Inr vs)
  show ?thesis
  proof (cases "reservas_id_seq st < 2147483647")
    case False
    then show ?thesis using vs by (simp add: INSERT_reservas_def nextval_def)
  next
    case True
    show ?thesis
    proof (cases "fila_nueva env (reservas_id_seq st + 1) vs")
      case (Inl e)
      then show ?thesis using vs True by (simp add: INSERT_reservas_def nextval_def)
    next
      case (Inr row)
      obtain n a w d c f h p where t: "vs = (n, a, w, d, c, f, h, p)"
        by (cases "(env, reservas_id_seq st, vs)" rule: fila_nueva.cases) auto
      have "r_id row = reservas_id_seq st + 1 \<and> r_estado row = ''confirmada''"
        using Inr unfolding t by (auto simp add: andThen_eq_Inr)
      then show ?thesis using vs True Inr by (simp add: INSERT_reservas_def nextval_def)
    qed
  qed
qed

lemma INSERT_reservas_entorno:
  "INSERT_reservas (env\<lparr>N8N_WEBHOOK_URL := u, fetch := g\<rparr>) st b = INSERT_reservas env st b"
proof -
  have "fila_nueva (env\<lparr>N8N_WEBHOOK_URL := u, fetch := g\<rparr>) i vs = fila_nueva env i vs" for i vs
    by (cases "(env, i, vs)" rule: fila_nueva.cases) auto
  then show ?thesis by (simp add: INSERT_reservas_def cong: sum.case_cong)
qed

lemma cabe_Some: "cabe n v \<Longrightarrow> \<exists>s. prepareValue v = Some s"
  by (simp add: cabe_def split: option.splits)

lemma INSERT_reservas_ok:
  assumes "cabe 100 (nombre b)" "cabe 100 (apellido b)" "cabe 30 (whatsapp b)"
    "cabe 50 (deporte b)" "cabe 100 (cancha b)" "cabe 100 (fecha b)" "cabe 10 (horario b)"
    and "bind_int4 (prepareValue (precio b)) = Inr (Some p)"
    and "reservas_id_seq st < 2147483647"
    and "\<forall>r \<in> set (reservas st). r_id r \<noteq> reservas_id_seq st + 1"
  shows "\<exists>row. INSERT_reservas env st b =
           (Inr (reservas_id_seq st + 1),
            st\<lparr>reservas_id_seq := reservas_id_seq st + 1, reservas := reservas st @ [row]\<rparr>)
         \<and> Some (r_cancha row) = prepareValue (cancha b)
         \<and> Some (r_fecha row) = prepareValue (fecha b)
         \<and> Some (r_horario row) = prepareValue (horario b)
         \<and> r_estado row = ''confirmada''"
proof -
  obtain n where n: "prepareValue (nombre b) = Some n"
    using cabe_Some [OF assms(1)] by blast
  obtain a where a: "prepareValue (apellido b) = Some a"
    using cabe_Some [OF assms(2)] by blast
  obtain w where w: "prepareValue (whatsapp b) = Some w"
    using cabe_Some [OF assms(3)] by blast
  obtain d where d: "prepareValue (deporte b) = Some d"
    using cabe_Some [OF assms(4)] by blast
  obtain c where c: "prepareValue (cancha b) = Some c"
    using cabe_Some [OF assms(5)] by blast
  obtain f where f: "prepareValue (fecha b) = Some f"
    using cabe_Some [OF assms(6)] by blast
  obtain h where h: "prepareValue (horario b) = Some h"
    using cabe_Some [OF assms(7)] by blast
  note s = n a w d c f h
  have libre: "\<not> list_ex (\<lambda>r. r_id r = reservas_id_seq st + 1) (reservas st)"
    using assms(10) by (simp add: list_ex_iff)
  have "bind_valores b = Inr (Some n, Some a, Some w, Some d, Some c, Some f, Some h, Some p)"
    using bind_valores_cabe [OF assms(1-8)] by (simp add: s)
  then have "INSERT_reservas env st b =
      (Inr (reservas_id_seq st + 1),
       st\<lparr>reservas_id_seq := reservas_id_seq st + 1,
          reservas := reservas st @
            [\<lparr>r_id = reservas_id_seq st + 1, r_nombre = n, r_apellido = a, r_whatsapp = w,
              r_deporte = d, r_cancha = c, r_fecha = f, r_horario = h, r_precio = p,
              r_estado = ''confirmada'', r_fecha_creacion = ahora env\<rparr>]\<rparr>)"
    using assms(9) libre
    by (simp add: INSERT_reservas_def nextval_def not_null_def andThen_Inr)
  then show ?thesis
    by (intro exI [of _ "\<lparr>r_id = reservas_id_seq st + 1, r_nombre = n, r_apellido = a,
              r_whatsapp = w, r_deporte = d, r_cancha = c, r_fecha = f, r_horario = h,
              r_precio = p, r_estado = ''confirmada'', r_fecha_creacion = ahora env\<rparr>"])
       (simp add: s)
qed

lemma post_reservar_Inr:
  assumes "seis_campos b" and "SELECT_id st (cancha b) (fecha b) (horario b) = Inr []"
    and "INSERT_reservas env st b = (Inr i, st')"
  shows "\<exists>calls. post_reservar env st b = (Inr i, st', calls) \<and> length calls \<le> 1"
  using assms by (cases "N8N_WEBHOOK_URL env") (simp_all add: post_reservar_def seis_campos_def)

lemma post_reservar_Inl:
  assumes "seis_campos b" and "SELECT_id st (cancha b) (fecha b) (horario b) = Inr []"
    and "INSERT_reservas env st b = (Inl e, st')"
  shows "post_reservar env st b = (Inl InternalError, st', [])"
  using assms by (simp add: post_reservar_def seis_campos_def)

lemma bind_8000: "bind_int4 (Some (toString 8000)) = Inr (Some 8000)"
  by (simp add: bind_int4_toString)

lemma pedido_campos: "seis_campos (pedido (JStr ''Leo'') d (JStr h)) \<longleftrightarrow> h \<noteq> []"
  by (simp add: seis_campos_def pedido_def)

lemma pedido_libre: "SELECT_id st0 (JStr ''Padel 1'') (JStr ''2025-06-01'') (JStr ''20:00'') = Inr []"
  by (simp add: SELECT_id_def textin_Some andThen_Inr st0_def fila_def)

lemma pedido_sin_deporte:
  "INSERT_reservas env0 st0 (pedido (JStr ''Leo'') JUndefined (JStr ''20:00''))
     = (Inl (not_null_violation ''deporte''), st0\<lparr>reservas_id_seq := 6\<rparr>)"
proof -
  have "bind_valores (pedido (JStr ''Leo'') JUndefined (JStr ''20:00'')) =
          Inr (Some ''Leo'', Some ''Sosa'', Some ''5491122223333'', None, Some ''Padel 1'',
               Some ''2025-06-01'', Some ''20:00'', Some 8000)"
    by (simp add: bind_valores_def pedido_def varchar_def textin_Some textin_None andThen_Inr
        bind_8000)
  moreover have "reservas_id_seq st0 = 5"
    by (simp add: st0_def)
  ultimately show ?thesis
    by (simp add: INSERT_reservas_def nextval_def fila_nueva_sin_deporte del: fila_nueva.simps)
qed

text \<open>
  C1, as amended. When a stored reservation that is not cancelled holds the slot
  (cancha, fecha, horario) of a request, \<^verbatim>\<open>POST /reservar\<close> writes nothing and calls no
  webhook; it answers \<open>Conflict\<close> (409) when the six validated fields are all truthy,
  and \<open>BadRequest\<close> when one of them is not.
\<close>

theorem reservar_horario_ocupado:
  assumes "r \<in> set (reservas st)" and "ocupa r (cancha b) (fecha b) (horario b)"
  shows "post_reservar env st b =
           (Inl (if seis_campos b then Conflict else BadRequest), st, [])
         \<and> status Conflict = 409"
proof -
  obtain ids where "SELECT_id st (cancha b) (fecha b) (horario b) = Inr ids" and "ids \<noteq> []"
    using SELECT_id_ocupa [OF assms] by blast
  then show ?thesis
    by (simp add: post_reservar_def seis_campos_def status_def)
qed

theorem reservar_horario_ocupado_witness:
  "fila 1 ''Padel 1'' ''2025-06-01'' ''18:00'' ''confirmada'' \<in> set (reservas st0)
   \<and> ocupa (fila 1 ''Padel 1'' ''2025-06-01'' ''18:00'' ''confirmada'')
        (JStr ''Padel 1'') (JStr ''2025-06-01'') (JStr ''18:00'')
   \<and> post_reservar env0 st0 (pedido (JStr ''Leo'') (JStr ''padel'') (JStr ''18:00''))
       = (Inl Conflict, st0, [])"
proof -
  have r: "fila 1 ''Padel 1'' ''2025-06-01'' ''18:00'' ''confirmada'' \<in> set (reservas st0)"
    by (simp add: st0_def)
  have o: "ocupa (fila 1 ''Padel 1'' ''2025-06-01'' ''18:00'' ''confirmada'')
        (cancha (pedido (JStr ''Leo'') (JStr ''padel'') (JStr ''18:00'')))
        (fecha (pedido (JStr ''Leo'') (JStr ''padel'') (JStr ''18:00'')))
        (horario (pedido (JStr ''Leo'') (JStr ''padel'') (JStr ''18:00'')))"
    by (simp add: ocupa_def textin_Some fila_def pedido_def)
  show ?thesis
    using reservar_horario_ocupado [OF r o, of env0] r o
    by (simp add: pedido_campos) (simp add: pedido_def)
qed

text \<open>
  C1 as stated has \<open>Conflict\<close> for every request on a held slot. The request below is
  on the slot that row 1 of \<open>st0\<close> holds and has no \<open>nombre\<close>: validation comes first
  and the answer is \<open>BadRequest\<close>.
\<close>

theorem reservar_horario_ocupado_counterexample:
  "fila 1 ''Padel 1'' ''2025-06-01'' ''18:00'' ''confirmada'' \<in> set (reservas st0)
   \<and> ocupa (fila 1 ''Padel 1'' ''2025-06-01'' ''18:00'' ''confirmada'')
        (JStr ''Padel 1'') (JStr ''2025-06-01'') (JStr ''18:00'')
   \<and> cancha (pedido JUndefined (JStr ''padel'') (JStr ''18:00'')) = JStr ''Padel 1''
   \<and> fecha (pedido JUndefined (JStr ''padel'') (JStr ''18:00'')) = JStr ''2025-06-01''
   \<and> horario (pedido JUndefined (JStr ''padel'') (JStr ''18:00'')) = JStr ''18:00''
   \<and> post_reservar env0 st0 (pedido JUndefined (JStr ''padel'') (JStr ''18:00''))
       = (Inl BadRequest, st0, [])"
proof -
  have "fila 1 ''Padel 1'' ''2025-06-01'' ''18:00'' ''confirmada'' \<in> set (reservas st0)"
    by (simp add: st0_def)
  moreover have "ocupa (fila 1 ''Padel 1'' ''2025-06-01'' ''18:00'' ''confirmada'')
        (JStr ''Padel 1'') (JStr ''2025-06-01'') (JStr ''18:00'')"
    by (simp add: ocupa_def textin_Some fila_def)
  moreover have "post_reservar env0 st0 (pedido JUndefined (JStr ''padel'') (JStr ''18:00''))
       = (Inl BadRequest, st0, [])"
    by (simp add: post_reservar_def pedido_def)
  ultimately show ?thesis by (simp add: pedido_def)
qed


text \<open>
  C2, as amended. Take a request whose six validated fields are truthy, whose slot no
  stored reservation holds, whose \<open>deporte\<close> is supplied as well, whose seven texts are
  free of U+0000 and within the widths of their columns, whose \<open>precio\<close> binds to an
  integer, and a sequence that has an id left, the next one being the id of no stored
  row. Then \<^verbatim>\<open>POST /reservar\<close> answers with success and the new id, and
  \<^verbatim>\<open>GET /disponibilidad\<close> for that cancha and fecha, asked of the state it leaves, lists
  the booked horario.
\<close>

theorem reservar_y_disponibilidad:
  assumes "seis_campos b"
    and "\<forall>r \<in> set (reservas st). \<not> ocupa r (cancha b) (fecha b) (horario b)"
    and "cabe 100 (nombre b)" and "cabe 100 (apellido b)" and "cabe 30 (whatsapp b)"
    and "cabe 50 (deporte b)" and "cabe 100 (cancha b)" and "cabe 100 (fecha b)"
    and "cabe 10 (horario b)"
    and "bind_int4 (prepareValue (precio b)) = Inr (Some p)"
    and "reservas_id_seq st < 2147483647"
    and "\<forall>r \<in> set (reservas st). r_id r \<noteq> reservas_id_seq st + 1"
    and "prepareValue (horario b) = Some h"
  shows "fst (post_reservar env st b) = Inr (reservas_id_seq st + 1)
         \<and> (\<exists>hs. get_disponibilidad (fst (snd (post_reservar env st b))) (cancha b) (fecha b)
                   = (Inr hs, fst (snd (post_reservar env st b)))
                 \<and> h \<in> set hs)"
proof -
  let ?i = "reservas_id_seq st + 1"
  obtain row where ins:
    "INSERT_reservas env st b =
       (Inr ?i, st\<lparr>reservas_id_seq := ?i, reservas := reservas st @ [row]\<rparr>)"
    and row: "Some (r_cancha row) = prepareValue (cancha b)"
      "Some (r_fecha row) = prepareValue (fecha b)"
      "Some (r_horario row) = prepareValue (horario b)" "r_estado row = ''confirmada''"
    using INSERT_reservas_ok [OF assms(3-12)] by blast
  let ?st' = "st\<lparr>reservas_id_seq := ?i, reservas := reservas st @ [row]\<rparr>"
  have nul: "sin_nul (cancha b)" "sin_nul (fecha b)" "sin_nul (horario b)"
    using assms(7-9) by (simp_all add: cabe_sin_nul)
  have free: "SELECT_id st (cancha b) (fecha b) (horario b) = Inr []"
    using assms(2) nul by (simp add: SELECT_id_Nil)
  obtain calls where post: "post_reservar env st b = (Inr ?i, ?st', calls)"
    using post_reservar_Inr [OF assms(1) free ins] by blast
  have sel: "SELECT_horario ?st' (cancha b) (fecha b) =
      Inr (map r_horario
             (filter (\<lambda>r. Some (r_cancha r) = prepareValue (cancha b)
                          \<and> Some (r_fecha r) = prepareValue (fecha b)
                          \<and> r_estado r \<noteq> ''cancelada'')
                (reservas ?st')))"
    using nul by (simp add: SELECT_horario_def textin_sin_nul andThen_Inr)
  have "r_horario row = h"
    using row(3) assms(13) by simp
  then have "h \<in> set (map r_horario
             (filter (\<lambda>r. Some (r_cancha r) = prepareValue (cancha b)
                          \<and> Some (r_fecha r) = prepareValue (fecha b)
                          \<and> r_estado r \<noteq> ''cancelada'')
                (reservas ?st')))"
    using row by simp
  moreover have "get_disponibilidad ?st' (cancha b) (fecha b) =
      (Inr (map r_horario
             (filter (\<lambda>r. Some (r_cancha r) = prepareValue (cancha b)
                          \<and> Some (r_fecha r) = prepareValue (fecha b)
                          \<and> r_estado r \<noteq> ''cancelada'')
                (reservas ?st'))), ?st')"
    using assms(1) by (simp add: get_disponibilidad_def seis_campos_def sel)
  ultimately show ?thesis
    by (simp add: post)
qed

theorem reservar_y_disponibilidad_witness:
  "seis_campos (pedido (JStr ''Leo'') (JStr ''padel'') (JStr ''20:00''))
   \<and> list_all (\<lambda>r. \<not> ocupa r (JStr ''Padel 1'') (JStr ''2025-06-01'') (JStr ''20:00'')) (reservas st0)
   \<and> list_all (\<lambda>r. r_id r \<noteq> 6) (reservas st0)
   \<and> fst (post_reservar env0 st0 (pedido (JStr ''Leo'') (JStr ''padel'') (JStr ''20:00''))) = Inr 6
   \<and> ''20:00'' \<in> set (projr (fst (get_disponibilidad
         (fst (snd (post_reservar env0 st0 (pedido (JStr ''Leo'') (JStr ''padel'') (JStr ''20:00'')))))
         (JStr ''Padel 1'') (JStr ''2025-06-01''))))"
proof -
  let ?b = "pedido (JStr ''Leo'') (JStr ''padel'') (JStr ''20:00'')"
  have c: "seis_campos ?b" by (simp add: pedido_campos)
  have l: "\<forall>r \<in> set (reservas st0). \<not> ocupa r (cancha ?b) (fecha ?b) (horario ?b)"
    using pedido_libre by (simp add: SELECT_id_Nil pedido_def)
  have k: "cabe 100 (nombre ?b)" "cabe 100 (apellido ?b)" "cabe 30 (whatsapp ?b)"
    "cabe 50 (deporte ?b)" "cabe 100 (cancha ?b)" "cabe 100 (fecha ?b)" "cabe 10 (horario ?b)"
    by (simp_all add: cabe_def pedido_def)
  have p: "bind_int4 (prepareValue (precio ?b)) = Inr (Some 8000)"
    by (simp add: pedido_def bind_8000)
  have s: "reservas_id_seq st0 < 2147483647" by (simp add: st0_def)
  have u: "\<forall>r \<in> set (reservas st0). r_id r \<noteq> reservas_id_seq st0 + 1"
    by (simp add: st0_def fila_def)
  have h: "prepareValue (horario ?b) = Some ''20:00''" by (simp add: pedido_def)
  have cf: "cancha ?b = JStr ''Padel 1''" "fecha ?b = JStr ''2025-06-01''" "horario ?b = JStr ''20:00''"
    by (simp_all add: pedido_def)
  have i: "reservas_id_seq st0 + 1 = 6" by (simp add: st0_def)
  show ?thesis
    using reservar_y_disponibilidad [OF c l k p s u h, of env0] c l u
    unfolding cf i by (auto simp add: list_all_iff)
qed

text \<open>
  C2 as stated asks for the six validated fields and a free slot only. The first
  request below has both and no \<open>deporte\<close>: the answer is \<open>InternalError\<close>, and the
  availability of that cancha and fecha afterwards does not list 20:00. The second has
  all eight fields and a \<open>horario\<close> of eleven characters, one more than its column
  takes: the answer is \<open>InternalError\<close> again.
\<close>

theorem reservar_y_disponibilidad_counterexample:
  "seis_campos (pedido (JStr ''Leo'') JUndefined (JStr ''20:00''))
   \<and> SELECT_id st0 (JStr ''Padel 1'') (JStr ''2025-06-01'') (JStr ''20:00'') = Inr []
   \<and> cancha (pedido (JStr ''Leo'') JUndefined (JStr ''20:00'')) = JStr ''Padel 1''
   \<and> fecha (pedido (JStr ''Leo'') JUndefined (JStr ''20:00'')) = JStr ''2025-06-01''
   \<and> horario (pedido (JStr ''Leo'') JUndefined (JStr ''20:00'')) = JStr ''20:00''
   \<and> fst (post_reservar env0 st0 (pedido (JStr ''Leo'') JUndefined (JStr ''20:00'')))
       = Inl InternalError
   \<and> get_disponibilidad
        (fst (snd (post_reservar env0 st0 (pedido (JStr ''Leo'') JUndefined (JStr ''20:00'')))))
        (JStr ''Padel 1'') (JStr ''2025-06-01'')
       = (Inr [''18:00'', ''17:00'', ''18:00''],
          fst (snd (post_reservar env0 st0 (pedido (JStr ''Leo'') JUndefined (JStr ''20:00'')))))
   \<and> seis_campos (pedido (JStr ''Leo'') (JStr ''padel'') (JStr ''20:00-21:00''))
   \<and> SELECT_id st0 (JStr ''Padel 1'') (JStr ''2025-06-01'') (JStr ''20:00-21:00'') = Inr []
   \<and> post_reservar env0 st0 (pedido (JStr ''Leo'') (JStr ''padel'') (JStr ''20:00-21:00''))
       = (Inl InternalError, st0, [])"
proof -
  let ?b = "pedido (JStr ''Leo'') JUndefined (JStr ''20:00'')"
  have c: "seis_campos ?b" by (simp add: pedido_campos)
  have cf: "cancha ?b = JStr ''Padel 1''" "fecha ?b = JStr ''2025-06-01''" "horario ?b = JStr ''20:00''"
    by (simp_all add: pedido_def)
  have l: "SELECT_id st0 (cancha ?b) (fecha ?b) (horario ?b) = Inr []"
    using pedido_libre by (simp add: cf)
  have post: "post_reservar env0 st0 ?b = (Inl InternalError, st0\<lparr>reservas_id_seq := 6\<rparr>, [])"
    by (rule post_reservar_Inl [OF c l pedido_sin_deporte])
  have disp: "get_disponibilidad (st0\<lparr>reservas_id_seq := 6\<rparr>) (JStr ''Padel 1'') (JStr ''2025-06-01'')
       = (Inr [''18:00'', ''17:00'', ''18:00''], st0\<lparr>reservas_id_seq := 6\<rparr>)"
    by (simp add: get_disponibilidad_def SELECT_horario_def textin_Some andThen_Inr st0_def fila_def)
  let ?b' = "pedido (JStr ''Leo'') (JStr ''padel'') (JStr ''20:00-21:00'')"
  have c': "seis_campos ?b'" by (simp add: pedido_campos)
  have l0: "SELECT_id st0 (JStr ''Padel 1'') (JStr ''2025-06-01'') (JStr ''20:00-21:00'') = Inr []"
    by (simp add: SELECT_id_def textin_Some andThen_Inr st0_def fila_def)
  then have l': "SELECT_id st0 (cancha ?b') (fecha ?b') (horario ?b') = Inr []"
    by (simp add: pedido_def)
  have "bind_valores ?b' = Inl string_data_right_truncation"
    by (simp add: bind_valores_def pedido_def varchar_def textin_Some andThen_Inr andThen_Inl
        bind_8000)
  then have "INSERT_reservas env0 st0 ?b' = (Inl string_data_right_truncation, st0)"
    by (simp add: INSERT_reservas_def)
  then have post': "post_reservar env0 st0 ?b' = (Inl InternalError, st0, [])"
    by (rule post_reservar_Inl [OF c' l'])
  show ?thesis
    using c pedido_libre cf disp c' l0 by (simp add: post post')
qed

text \<open>
  C8. Take a request that reaches the insert (validation passed, no row found by the
  occupancy check) and whose insert gives id \<open>i\<close> and state \<open>st'\<close>. Whatever the webhook
  URL \<open>u\<close> and whatever \<open>fetch\<close> does (\<open>g\<close>), the answer is success with \<open>i\<close>, the state
  left is \<open>st'\<close>, which has the new row at its end, and \<open>fetch\<close> was called at most
  once.
\<close>

theorem webhook_no_cambia_reserva:
  assumes "seis_campos b" and "SELECT_id st (cancha b) (fecha b) (horario b) = Inr []"
    and "INSERT_reservas env st b = (Inr i, st')"
  shows "(\<exists>calls. post_reservar (env\<lparr>N8N_WEBHOOK_URL := u, fetch := g\<rparr>) st b = (Inr i, st', calls)
                 \<and> length calls \<le> 1)
         \<and> (\<exists>row. reservas st' = reservas st @ [row] \<and> r_id row = i)"
proof -
  have "INSERT_reservas (env\<lparr>N8N_WEBHOOK_URL := u, fetch := g\<rparr>) st b = (Inr i, st')"
    using assms(3) by (simp add: INSERT_reservas_entorno)
  then have "\<exists>calls. post_reservar (env\<lparr>N8N_WEBHOOK_URL := u, fetch := g\<rparr>) st b = (Inr i, st', calls)
                 \<and> length calls \<le> 1"
    by (rule post_reservar_Inr [OF assms(1,2)])
  moreover have "\<exists>row. reservas st' = reservas st @ [row] \<and> r_id row = i"
    using INSERT_reservas_cases [of env st b] assms(3) by auto
  ultimately show ?thesis by simp
qed

theorem webhook_no_cambia_reserva_witness:
  "seis_campos (pedido (JStr ''Leo'') (JStr ''padel'') (JStr ''20:00''))
   \<and> SELECT_id st0 (JStr ''Padel 1'') (JStr ''2025-06-01'') (JStr ''20:00'') = Inr []
   \<and> fst (INSERT_reservas env0 st0 (pedido (JStr ''Leo'') (JStr ''padel'') (JStr ''20:00''))) = Inr 6
   \<and> fst (post_reservar (env0\<lparr>N8N_WEBHOOK_URL := Some ''http://n8n.local/webhook'', fetch := (\<lambda>u p. False)\<rparr>)
           st0 (pedido (JStr ''Leo'') (JStr ''padel'') (JStr ''20:00''))) = Inr 6
   \<and> fst (snd (post_reservar (env0\<lparr>N8N_WEBHOOK_URL := Some ''http://n8n.local/webhook'', fetch := (\<lambda>u p. False)\<rparr>)
           st0 (pedido (JStr ''Leo'') (JStr ''padel'') (JStr ''20:00''))))
       = fst (snd (post_reservar (env0\<lparr>N8N_WEBHOOK_URL := None, fetch := (\<lambda>u p. True)\<rparr>)
           st0 (pedido (JStr ''Leo'') (JStr ''padel'') (JStr ''20:00''))))
   \<and> map r_id (reservas (fst (snd (post_reservar (env0\<lparr>N8N_WEBHOOK_URL := Some ''http://n8n.local/webhook'', fetch := (\<lambda>u p. False)\<rparr>)
           st0 (pedido (JStr ''Leo'') (JStr ''padel'') (JStr ''20:00''))))))
       = [1, 2, 3, 4, 5, 6]"
proof -
  let ?b = "pedido (JStr ''Leo'') (JStr ''padel'') (JStr ''20:00'')"
  have c: "seis_campos ?b" by (simp add: pedido_campos)
  have cf: "cancha ?b = JStr ''Padel 1''" "fecha ?b = JStr ''2025-06-01''" "horario ?b = JStr ''20:00''"
    by (simp_all add: pedido_def)
  have l: "SELECT_id st0 (cancha ?b) (fecha ?b) (horario ?b) = Inr []"
    using pedido_libre by (simp add: cf)
  have k: "cabe 100 (nombre ?b)" "cabe 100 (apellido ?b)" "cabe 30 (whatsapp ?b)"
    "cabe 50 (deporte ?b)" "cabe 100 (cancha ?b)" "cabe 100 (fecha ?b)" "cabe 10 (horario ?b)"
    by (simp_all add: cabe_def pedido_def)
  have p: "bind_int4 (prepareValue (precio ?b)) = Inr (Some 8000)"
    by (simp add: pedido_def bind_8000)
  have s: "reservas_id_seq st0 < 2147483647" by (simp add: st0_def)
  have u: "\<forall>r \<in> set (reservas st0). r_id r \<noteq> reservas_id_seq st0 + 1"
    by (simp add: st0_def fila_def)
  have i: "reservas_id_seq st0 + 1 = 6" by (simp add: st0_def)
  have insf: "fst (INSERT_reservas env0 st0 ?b) = Inr 6"
    using INSERT_reservas_ok [OF k p s u, of env0] by (auto simp add: i)
  then have ins: "INSERT_reservas env0 st0 ?b = (Inr 6, snd (INSERT_reservas env0 st0 ?b))"
    by (simp add: prod_eq_iff)
  have ids: "map r_id (reservas st0) = [1, 2, 3, 4, 5]"
    by (simp add: st0_def fila_def)
  show ?thesis
    using webhook_no_cambia_reserva [OF c l ins, where u = "Some ''http://n8n.local/webhook''" and g = "\<lambda>u p. False"]
      webhook_no_cambia_reserva [OF c l ins, where u = None and g = "\<lambda>u p. True"] c l insf ids
    unfolding cf by auto
qed

lemma bind_valores_sin_deporte:
  assumes "cabe 100 (nombre b)" "cabe 100 (apellido b)" "cabe 30 (whatsapp b)"
    "prepareValue (deporte b) = None" "cabe 100 (cancha b)" "cabe 100 (fecha b)"
    "cabe 10 (horario b)"
    and "bind_int4 (prepareValue (precio b)) = Inr p"
  shows "bind_valores b =
           Inr (prepareValue (nombre b), prepareValue (apellido b), prepareValue (whatsapp b),
                None, prepareValue (cancha b), prepareValue (fecha b),
                prepareValue (horario b), p)"
  using assms
  by (simp add: bind_valores_def varchar_cabe varchar_None textin_None textin_sin_nul
      cabe_sin_nul andThen_Inr)

lemma INSERT_reservas_sin_deporte:
  assumes "prepareValue (deporte b) = None"
  shows "\<exists>e st'. INSERT_reservas env st b = (Inl e, st') \<and> reservas st' = reservas st"
proof -
  have fila: "fila_nueva env j vs' = Inr row \<Longrightarrow> bind_valores b \<noteq> Inr vs'" for j vs' row
  proof
    assume r: "fila_nueva env j vs' = Inr row" and v: "bind_valores b = Inr vs'"
    obtain n a w d c f h p where t: "vs' = (n, a, w, d, c, f, h, p)"
      by (cases "(env, j, vs')" rule: fila_nueva.cases) auto
    have "varchar 50 (prepareValue (deporte b)) = Inr d"
      using bind_valores_cols(4) [OF v [unfolded t]] .
    then have "d = None" using assms by (simp add: varchar_None)
    then show False
      using r fila_nueva_sin_deporte_Inl [of env j n a w c f h p] by (simp add: t)
  qed
  then have "\<nexists>row vs'. bind_valores b = Inr vs'
            \<and> fila_nueva env (reservas_id_seq st + 1) vs' = Inr row"
    by blast
  then show ?thesis
    using INSERT_reservas_cases [of env st b] by blast
qed

text \<open>
  C9, as amended. A request whose six validated fields are truthy and that leaves
  \<open>deporte\<close> out (undefined, or null) is never answered with success and never with
  \<open>BadRequest\<close>; it leaves the rows of \<open>reservas\<close> as they were and calls no webhook.
  The answer is \<open>Conflict\<close> (409) when a stored reservation that is not cancelled holds
  its slot, and \<open>InternalError\<close> (500) otherwise. The insert fails with the \<^verbatim>\<open>NOT NULL\<close>
  violation on \<open>deporte\<close> when the six texts are free of U+0000 and within the widths
  of their columns, \<open>precio\<close> binds to the \<^verbatim>\<open>INTEGER\<close> parameter and the sequence has an
  id left.
\<close>

theorem reservar_sin_deporte:
  assumes "seis_campos b" and "prepareValue (deporte b) = None"
  shows "fst (post_reservar env st b) =
           Inl (if \<exists>r \<in> set (reservas st). ocupa r (cancha b) (fecha b) (horario b)
                then Conflict else InternalError)
         \<and> status Conflict = 409 \<and> status InternalError = 500
         \<and> reservas (fst (snd (post_reservar env st b))) = reservas st
         \<and> snd (snd (post_reservar env st b)) = []
         \<and> (cabe 100 (nombre b) \<and> cabe 100 (apellido b) \<and> cabe 30 (whatsapp b)
              \<and> cabe 100 (cancha b) \<and> cabe 100 (fecha b) \<and> cabe 10 (horario b)
              \<and> bind_int4 (prepareValue (precio b)) = Inr p
              \<and> reservas_id_seq st < 2147483647
              \<longrightarrow> fst (INSERT_reservas env st b) = Inl (not_null_violation ''deporte''))"
proof -
  let ?held = "\<exists>r \<in> set (reservas st). ocupa r (cancha b) (fecha b) (horario b)"
  obtain e st' where ins: "INSERT_reservas env st b = (Inl e, st')"
    and same: "reservas st' = reservas st"
    using INSERT_reservas_sin_deporte [OF assms(2)] by blast
  have post: "fst (post_reservar env st b) = Inl (if ?held then Conflict else InternalError)
      \<and> reservas (fst (snd (post_reservar env st b))) = reservas st
      \<and> snd (snd (post_reservar env st b)) = []"
  proof (cases "SELECT_id st (cancha b) (fecha b) (horario b)")
    case (Inl e')
    then have "\<not> (sin_nul (cancha b) \<and> sin_nul (fecha b) \<and> sin_nul (horario b))"
      by (simp add: SELECT_id_eq split: if_splits)
    then have "\<not> ?held"
      by (auto simp add: ocupa_def sin_nul_def textin_def split: option.splits if_splits)
    then show ?thesis
      using Inl assms(1) by (simp add: post_reservar_def seis_campos_def)
  next
    case (Inr ids)
    show ?thesis
    proof (cases "ids = []")
      case True
      then have "\<not> ?held" using Inr by (simp add: SELECT_id_Nil)
      then show ?thesis
        using post_reservar_Inl [OF assms(1) Inr [unfolded True] ins] same by simp
    next
      case False
      then have "?held"
        using Inr by (auto simp add: SELECT_id_eq split: if_splits)
      then show ?thesis
        using Inr False assms(1) by (simp add: post_reservar_def seis_campos_def)
    qed
  qed
  have nn: "fst (INSERT_reservas env st b) = Inl (not_null_violation ''deporte'')"
    if k: "cabe 100 (nombre b)" "cabe 100 (apellido b)" "cabe 30 (whatsapp b)"
      "cabe 100 (cancha b)" "cabe 100 (fecha b)" "cabe 10 (horario b)"
      and p: "bind_int4 (prepareValue (precio b)) = Inr p"
      and s: "reservas_id_seq st < 2147483647"
  proof -
    obtain n where n: "prepareValue (nombre b) = Some n"
      using cabe_Some [OF k(1)] by blast
    obtain a where a: "prepareValue (apellido b) = Some a"
      using cabe_Some [OF k(2)] by blast
    obtain w where w: "prepareValue (whatsapp b) = Some w"
      using cabe_Some [OF k(3)] by blast
    have "bind_valores b = Inr (Some n, Some a, Some w, None, prepareValue (cancha b),
        prepareValue (fecha b), prepareValue (horario b), p)"
      using bind_valores_sin_deporte [OF k(1-3) assms(2) k(4-6) p] by (simp add: n a w)
    then show ?thesis
      using s by (simp add: INSERT_reservas_def nextval_def fila_nueva_sin_deporte
          del: fila_nueva.simps)
  qed
  show ?thesis
    using post nn by (simp add: status_def)
qed

theorem reservar_sin_deporte_witness:
  "seis_campos (pedido (JStr ''Leo'') JUndefined (JStr ''20:00''))
   \<and> prepareValue (deporte (pedido (JStr ''Leo'') JUndefined (JStr ''20:00''))) = None
   \<and> SELECT_id st0 (JStr ''Padel 1'') (JStr ''2025-06-01'') (JStr ''20:00'') = Inr []
   \<and> fst (post_reservar env0 st0 (pedido (JStr ''Leo'') JUndefined (JStr ''20:00''))) = Inl InternalError
   \<and> reservas (fst (snd (post_reservar env0 st0 (pedido (JStr ''Leo'') JUndefined (JStr ''20:00'')))))
       = reservas st0
   \<and> fst (INSERT_reservas env0 st0 (pedido (JStr ''Leo'') JUndefined (JStr ''20:00'')))
       = Inl (not_null_violation ''deporte'')
   \<and> fst (post_reservar env0 st0 (pedido (JStr ''Leo'') JUndefined (JStr ''18:00''))) = Inl Conflict"
proof -
  let ?b = "pedido (JStr ''Leo'') JUndefined (JStr ''20:00'')"
  let ?b' = "pedido (JStr ''Leo'') JUndefined (JStr ''18:00'')"
  have c: "seis_campos ?b" "seis_campos ?b'" by (simp_all add: pedido_campos)
  have d: "prepareValue (deporte ?b) = None" "prepareValue (deporte ?b') = None"
    by (simp_all add: pedido_def)
  have free: "\<not> (\<exists>r \<in> set (reservas st0). ocupa r (cancha ?b) (fecha ?b) (horario ?b))"
    using pedido_libre by (simp add: SELECT_id_Nil pedido_def)
  have held: "\<exists>r \<in> set (reservas st0). ocupa r (cancha ?b') (fecha ?b') (horario ?b')"
    by (simp add: ocupa_def textin_Some st0_def fila_def pedido_def)
  show ?thesis
    using reservar_sin_deporte [OF c(1) d(1), of env0 st0] free
      reservar_sin_deporte [OF c(2) d(2), of env0 st0] held c d pedido_libre
    by (simp add: pedido_sin_deporte)
qed

text \<open>
  C9 as stated has \<open>InternalError\<close> for every request with the six fields and no
  \<open>deporte\<close>. The request below is one, on the slot that row 1 of \<open>st0\<close> holds: the
  occupancy check comes before the insert and the answer is \<open>Conflict\<close>.
\<close>

theorem reservar_sin_deporte_counterexample:
  "seis_campos (pedido (JStr ''Leo'') JUndefined (JStr ''18:00''))
   \<and> deporte (pedido (JStr ''Leo'') JUndefined (JStr ''18:00'')) = JUndefined
   \<and> post_reservar env0 st0 (pedido (JStr ''Leo'') JUndefined (JStr ''18:00''))
       = (Inl Conflict, st0, [])"
proof -
  have "SELECT_id st0 (JStr ''Padel 1'') (JStr ''2025-06-01'') (JStr ''18:00'') = Inr [1, 5]"
    by (simp add: SELECT_id_def textin_Some andThen_Inr st0_def fila_def)
  then have "post_reservar env0 st0 (pedido (JStr ''Leo'') JUndefined (JStr ''18:00''))
       = (Inl Conflict, st0, [])"
    by (simp add: post_reservar_def pedido_def)
  then show ?thesis
    by (simp add: pedido_campos) (simp add: pedido_def)
qed

end
